theory Spec2Isabelle
  imports Main "HOL-Library.Char_ord" "HOL-Library.List_Lexorder"
begin

section \<open>Values, exceptions and the outside world\<close>

text \<open>
  The scripts under \<^verbatim>\<open>tools/\<close> are sequential Python programs that talk to the App Store
  Connect REST API.  Every effect they have is made explicit here: the requests they issue
  are appended to a log, what they print is appended to the standard output, an exception
  is the left summand of the result, and a run of a script ends by returning, by
  \<^verbatim>\<open>sys.exit\<close> or by an exception that nothing catches (the scripts have no
  \<^verbatim>\<open>try\<close>).
  \<^verbatim>\<open>time.sleep\<close> only delays the run and is left out.
\<close>

datatype json =
    JNull
  | JBool bool
  | JNum int
  | JStr string
  | JArr "json list"
  | JObj "(string \<times> json) list"

datatype exc =
    KeyError string
  | TypeError
  | AttributeError
  | IndexError
  | JSONDecodeError
  | FileNotFoundError string
  | OverflowError
  | InvalidKeyError
  | MissingSchema
  | InvalidHeader
  | ConnectionError

text \<open>How a run ends when it does not return: \<^verbatim>\<open>sys.exit(n)\<close>, or an exception that
  reaches the top level.\<close>

datatype abort = SystemExit int | Uncaught exc

text \<open>A file system as the scripts read it: file contents (bytes as characters) and
  directory listings.\<close>

record filesystem =
  files :: "string \<Rightarrow> string option"
  dirs :: "string \<Rightarrow> string list option"


subsection \<open>Python values\<close>

text \<open>
  A decoded JSON document.  Python's \<^verbatim>\<open>None\<close> is \<open>JNull\<close>, so a wrapper that returns
  either the decoded body or \<^verbatim>\<open>None\<close> returns a \<open>json\<close>.  Numbers are integers, and
  an object lists each key once, as the decoder leaves it.
\<close>

fun truthy :: "json \<Rightarrow> bool" where
  "truthy JNull = False"
| "truthy (JBool b) = b"
| "truthy (JNum n) = (n \<noteq> 0)"
| "truthy (JStr s) = (s \<noteq> [])"
| "truthy (JArr xs) = (xs \<noteq> [])"
| "truthy (JObj kvs) = (kvs \<noteq> [])"

text \<open>\<^verbatim>\<open>d[key]\<close> with a string key.\<close>

fun py_getitem :: "json \<Rightarrow> string \<Rightarrow> exc + json" where
  "py_getitem (JObj kvs) k =
     (case map_of kvs k of None \<Rightarrow> Inl (KeyError k) | Some v \<Rightarrow> Inr v)"
| "py_getitem _ k = Inl TypeError"

text \<open>\<^verbatim>\<open>d[0]\<close>: the first element of a list, the first character of a string; a decoded
  object has string keys only, so the key 0 is missing.\<close>

fun py_getitem0 :: "json \<Rightarrow> exc + json" where
  "py_getitem0 (JArr []) = Inl IndexError"
| "py_getitem0 (JArr (x # xs)) = Inr x"
| "py_getitem0 (JStr []) = Inl IndexError"
| "py_getitem0 (JStr (c # cs)) = Inr (JStr [c])"
| "py_getitem0 (JObj kvs) = Inl (KeyError ''0'')"
| "py_getitem0 _ = Inl TypeError"

text \<open>\<^verbatim>\<open>d.get(key, default)\<close>: only a dict has the method.\<close>

fun py_get :: "json \<Rightarrow> string \<Rightarrow> json \<Rightarrow> exc + json" where
  "py_get (JObj kvs) k d = Inr (case map_of kvs k of None \<Rightarrow> d | Some v \<Rightarrow> v)"
| "py_get _ k d = Inl AttributeError"

text \<open>What \<^verbatim>\<open>list.extend\<close> iterates over: the elements of a list, the keys of a dict,
  the characters of a string.\<close>

fun py_iter :: "json \<Rightarrow> exc + json list" where
  "py_iter (JArr xs) = Inr xs"
| "py_iter (JObj kvs) = Inr (map (\<lambda>kv. JStr (fst kv)) kvs)"
| "py_iter (JStr s) = Inr (map (\<lambda>c. JStr [c]) s)"
| "py_iter _ = Inl TypeError"

fun str_nat :: "nat \<Rightarrow> string" where
  "str_nat n =
     (if n < 10 then [''0123456789'' ! n]
      else str_nat (n div 10) @ [''0123456789'' ! (n mod 10)])"

definition str_int :: "int \<Rightarrow> string" where
  "str_int i = (if i < 0 then ''-'' @ str_nat (nat (- i)) else str_nat (nat i))"

text \<open>
  \<^verbatim>\<open>str(x)\<close>, which an f-string applies to an interpolated value, and \<^verbatim>\<open>repr(x)\<close>,
  which \<^verbatim>\<open>str\<close> applies to the elements of a list or dict.  Characters are bytes here;
  \<^verbatim>\<open>repr\<close> of a string escapes the backslash, the enclosing quote and the control
  characters.
\<close>

definition hex2 :: "nat \<Rightarrow> string" where
  "hex2 n = [''0123456789abcdef'' ! (n div 16), ''0123456789abcdef'' ! (n mod 16)]"

definition repr_char :: "char \<Rightarrow> char \<Rightarrow> string" where
  "repr_char q c =
     (if c = CHR 0x5C then [CHR 0x5C, CHR 0x5C]
      else if c = q then [CHR 0x5C, q]
      else if c = CHR 0x0A then [CHR 0x5C, CHR ''n'']
      else if c = CHR 0x0D then [CHR 0x5C, CHR ''r'']
      else if c = CHR 0x09 then [CHR 0x5C, CHR ''t'']
      else if (of_char c :: nat) < 32 \<or> (of_char c :: nat) = 127
        then [CHR 0x5C, CHR ''x''] @ hex2 (of_char c)
      else [c])"

definition repr_str :: "string \<Rightarrow> string" where
  "repr_str s =
     (let q = (if CHR 0x27 \<in> set s \<and> CHR 0x22 \<notin> set s then CHR 0x22 else CHR 0x27)
      in [q] @ concat (map (repr_char q) s) @ [q])"

fun join :: "string \<Rightarrow> string list \<Rightarrow> string" where
  "join sep [] = []"
| "join sep [x] = x"
| "join sep (x # y # ys) = x @ sep @ join sep (y # ys)"

fun py_repr :: "json \<Rightarrow> string" where
  "py_repr JNull = ''None''"
| "py_repr (JBool b) = (if b then ''True'' else ''False'')"
| "py_repr (JNum n) = str_int n"
| "py_repr (JStr s) = repr_str s"
| "py_repr (JArr xs) = ''['' @ join '', '' (map py_repr xs) @ '']''"
| "py_repr (JObj kvs) =
     ''{'' @ join '', '' (map (\<lambda>kv. repr_str (fst kv) @ '': '' @ py_repr (snd kv)) kvs) @ ''}''"

fun py_str :: "json \<Rightarrow> string" where
  "py_str (JStr s) = s"
| "py_str j = py_repr j"

text \<open>\<^verbatim>\<open>len(x)\<close>.\<close>

fun py_len :: "json \<Rightarrow> exc + int" where
  "py_len (JArr xs) = Inr (int (length xs))"
| "py_len (JObj kvs) = Inr (int (length kvs))"
| "py_len (JStr s) = Inr (int (length s))"
| "py_len _ = Inl TypeError"

text \<open>A value used as an integer: \<^verbatim>\<open>bool\<close> is a subclass of \<^verbatim>\<open>int\<close>.\<close>

fun py_int :: "json \<Rightarrow> exc + int" where
  "py_int (JNum n) = Inr n"
| "py_int (JBool b) = Inr (if b then 1 else 0)"
| "py_int _ = Inl TypeError"

text \<open>\<^verbatim>\<open>xs[i:j]\<close>: a negative index counts from the end, and both ends are clamped.\<close>

definition slice_index :: "int \<Rightarrow> int \<Rightarrow> nat" where
  "slice_index n k = nat (if k < 0 then max (k + n) 0 else min k n)"

definition py_slice :: "'a list \<Rightarrow> int \<Rightarrow> int \<Rightarrow> 'a list" where
  "py_slice xs i j =
     (let n = int (length xs); a = slice_index n i; b = slice_index n j
      in take (b - a) (drop a xs))"

text \<open>\<^verbatim>\<open>s.rstrip(chars)\<close>, \<^verbatim>\<open>s.endswith(suffix)\<close>, \<^verbatim>\<open>s.ljust(n)\<close> and \<^verbatim>\<open>s.rjust(n)\<close>.\<close>

definition rstrip :: "string \<Rightarrow> string \<Rightarrow> string" where
  "rstrip chars s = rev (dropWhile (\<lambda>c. c \<in> set chars) (rev s))"

definition endswith :: "string \<Rightarrow> string \<Rightarrow> bool" where
  "endswith s suffix = (length suffix \<le> length s \<and> drop (length s - length suffix) s = suffix)"

definition ljust :: "nat \<Rightarrow> string \<Rightarrow> string" where
  "ljust n s = s @ replicate (n - length s) CHR '' ''"

definition rjust :: "nat \<Rightarrow> string \<Rightarrow> string" where
  "rjust n s = replicate (n - length s) CHR '' '' @ s"

subsection \<open>The file system\<close>

definition open_read :: "filesystem \<Rightarrow> string \<Rightarrow> exc + string" where
  "open_read fs path =
     (case files fs path of None \<Rightarrow> Inl (FileNotFoundError path) | Some d \<Rightarrow> Inr d)"

definition getsize :: "filesystem \<Rightarrow> string \<Rightarrow> exc + int" where
  "getsize fs path =
     (case files fs path of
        None \<Rightarrow> Inl (FileNotFoundError path)
      | Some d \<Rightarrow> Inr (int (length d)))"

definition path_exists :: "filesystem \<Rightarrow> string \<Rightarrow> bool" where
  "path_exists fs path = (files fs path \<noteq> None \<or> dirs fs path \<noteq> None)"

definition listdir :: "filesystem \<Rightarrow> string \<Rightarrow> exc + string list" where
  "listdir fs path =
     (case dirs fs path of None \<Rightarrow> Inl (FileNotFoundError path) | Some names \<Rightarrow> Inr names)"

definition basename :: "string \<Rightarrow> string" where
  "basename p = rev (takeWhile (\<lambda>c. c \<noteq> CHR ''/'') (rev p))"

definition path_join :: "string \<Rightarrow> string \<Rightarrow> string" where
  "path_join a b =
     (if b \<noteq> [] \<and> hd b = CHR ''/'' then b
      else if a = [] \<or> last a = CHR ''/'' then a @ b
      else a @ ''/'' @ b)"

subsection \<open>Requests, responses and the state of a run\<close>

datatype body = NoBody | JsonBody json | DataBody string

record request =
  rq_method :: string
  rq_url :: string
  rq_headers :: "(string \<times> string) list"
  rq_params :: "(string \<times> json) list option"
  rq_body :: body

text \<open>A response: \<open>resp_json\<close> is the decoded body, \<open>None\<close> when the text is not JSON.\<close>

record response =
  status_code :: int
  resp_text :: string
  resp_json :: "json option"

text \<open>
  The remote side is any deterministic server: its answer may depend on the request and on
  all the requests issued before it.  An answer is a response, or an exception raised by
  the HTTP library (no connection, malformed URL).
\<close>

type_synonym server = "request list \<Rightarrow> request \<Rightarrow> exc + response"

record world =
  log :: "request list"
  out :: string

type_synonym ('e, 'a) eprog = "world \<Rightarrow> ('e + 'a) \<times> world"

type_synonym 'a prog = "(exc, 'a) eprog"

definition ret :: "'a \<Rightarrow> ('e, 'a) eprog" where
  "ret v = (\<lambda>w. (Inr v, w))"

definition raise :: "'e \<Rightarrow> ('e, 'a) eprog" where
  "raise e = (\<lambda>w. (Inl e, w))"

definition lift :: "'e + 'a \<Rightarrow> ('e, 'a) eprog" where
  "lift r = (\<lambda>w. (r, w))"

definition bnd :: "('e, 'a) eprog \<Rightarrow> ('a \<Rightarrow> ('e, 'b) eprog) \<Rightarrow> ('e, 'b) eprog" where
  "bnd m f = (\<lambda>w. case m w of (Inl e, w1) \<Rightarrow> (Inl e, w1) | (Inr v, w1) \<Rightarrow> f v w1)"

text \<open>A function of the scripts called from the top level: its exceptions are uncaught.\<close>

definition uncaught :: "'a prog \<Rightarrow> (abort, 'a) eprog" where
  "uncaught m = (\<lambda>w. case m w of (Inl e, w1) \<Rightarrow> (Inl (Uncaught e), w1) | (Inr v, w1) \<Rightarrow> (Inr v, w1))"

text \<open>Pure computations that may raise.\<close>

definition thn :: "'e + 'a \<Rightarrow> ('a \<Rightarrow> 'e + 'b) \<Rightarrow> 'e + 'b" where
  "thn r f = (case r of Inl e \<Rightarrow> Inl e | Inr v \<Rightarrow> f v)"

text \<open>
  Code that runs the paginated fetcher may never return: its result is optional, \<open>None\<close>
  being the run that does not end.
\<close>

type_synonym ('e, 'a) nprog = "world \<Rightarrow> (('e + 'a) \<times> world) option"

definition total :: "('e, 'a) eprog \<Rightarrow> ('e, 'a) nprog" where
  "total m = (\<lambda>w. Some (m w))"

definition nbnd :: "('e, 'a) nprog \<Rightarrow> ('a \<Rightarrow> ('e, 'b) nprog) \<Rightarrow> ('e, 'b) nprog" where
  "nbnd m f =
     (\<lambda>w. case m w of
            None \<Rightarrow> None
          | Some (Inl e, w1) \<Rightarrow> Some (Inl e, w1)
          | Some (Inr v, w1) \<Rightarrow> f v w1)"

definition nuncaught :: "(exc, 'a) nprog \<Rightarrow> (abort, 'a) nprog" where
  "nuncaught m =
     (\<lambda>w. case m w of
            None \<Rightarrow> None
          | Some (Inl e, w1) \<Rightarrow> Some (Inl (Uncaught e), w1)
          | Some (Inr v, w1) \<Rightarrow> Some (Inr v, w1))"


definition newline :: string where
  "newline = [CHR 0x0A]"

text \<open>\<^verbatim>\<open>print(s)\<close> and \<^verbatim>\<open>print(s, end=e)\<close>.\<close>

definition print :: "string \<Rightarrow> ('e, unit) eprog" where
  "print s = (\<lambda>w. (Inr (), w\<lparr>out := out w @ s @ newline\<rparr>))"

definition print_end :: "string \<Rightarrow> string \<Rightarrow> ('e, unit) eprog" where
  "print_end s e = (\<lambda>w. (Inr (), w\<lparr>out := out w @ s @ e\<rparr>))"

definition requests_request :: "server \<Rightarrow> request \<Rightarrow> response prog" where
  "requests_request srv rq = (\<lambda>w. (srv (log w) rq, w\<lparr>log := log w @ [rq]\<rparr>))"

definition get_request ::
  "string \<Rightarrow> (string \<times> string) list \<Rightarrow> (string \<times> json) list option \<Rightarrow> request" where
  "get_request url headers params =
     \<lparr>rq_method = ''GET'', rq_url = url, rq_headers = headers, rq_params = params,
      rq_body = NoBody\<rparr>"

definition post_request :: "string \<Rightarrow> (string \<times> string) list \<Rightarrow> json \<Rightarrow> request" where
  "post_request url headers data =
     \<lparr>rq_method = ''POST'', rq_url = url, rq_headers = headers, rq_params = None,
      rq_body = JsonBody data\<rparr>"

definition patch_request :: "string \<Rightarrow> (string \<times> string) list \<Rightarrow> json \<Rightarrow> request" where
  "patch_request url headers data =
     \<lparr>rq_method = ''PATCH'', rq_url = url, rq_headers = headers, rq_params = None,
      rq_body = JsonBody data\<rparr>"

definition delete_request :: "string \<Rightarrow> (string \<times> string) list \<Rightarrow> request" where
  "delete_request url headers =
     \<lparr>rq_method = ''DELETE'', rq_url = url, rq_headers = headers, rq_params = None,
      rq_body = NoBody\<rparr>"

definition requests_get ::
  "server \<Rightarrow> string \<Rightarrow> (string \<times> string) list \<Rightarrow> (string \<times> json) list option \<Rightarrow> response prog" where
  "requests_get srv url headers params = requests_request srv (get_request url headers params)"

definition requests_post ::
  "server \<Rightarrow> string \<Rightarrow> (string \<times> string) list \<Rightarrow> json \<Rightarrow> response prog" where
  "requests_post srv url headers data = requests_request srv (post_request url headers data)"

definition requests_patch ::
  "server \<Rightarrow> string \<Rightarrow> (string \<times> string) list \<Rightarrow> json \<Rightarrow> response prog" where
  "requests_patch srv url headers data = requests_request srv (patch_request url headers data)"

definition requests_delete ::
  "server \<Rightarrow> string \<Rightarrow> (string \<times> string) list \<Rightarrow> response prog" where
  "requests_delete srv url headers = requests_request srv (delete_request url headers)"

text \<open>\<^verbatim>\<open>resp.json()\<close>.\<close>

definition json_of :: "response \<Rightarrow> exc + json" where
  "json_of resp = (case resp_json resp of None \<Rightarrow> Inl JSONDecodeError | Some j \<Rightarrow> Inr j)"

definition api_headers :: "string \<Rightarrow> (string \<times> string) list" where
  "api_headers token =
     [(''Authorization'', ''Bearer '' @ token), (''Content-Type'', ''application/json'')]"

text \<open>The text of a diagnostic: \<^verbatim>\<open>f"{label}{resp.status_code}: {resp.text[:lim]}"\<close>.\<close>

definition diagnostic :: "string \<Rightarrow> nat \<Rightarrow> response \<Rightarrow> string" where
  "diagnostic label lim resp = label @ str_int (status_code resp) @ '': '' @ take lim (resp_text resp)"

subsection \<open>The command line\<close>

text \<open>
  Every \<^verbatim>\<open>main\<close> starts with \<^verbatim>\<open>args = parser.parse_args()\<close>. Of the argument parser the
  outcome is taken as given: on a usage error (a required flag is missing, a flag is
  unknown or lacks its value) it writes a message to the standard error stream and ends
  the run with \<^verbatim>\<open>sys.exit(2)\<close>; on \<^verbatim>\<open>-h\<close> or \<^verbatim>\<open>--help\<close> it writes the help text to the
  standard output and ends the run with \<^verbatim>\<open>sys.exit(0)\<close>; otherwise it returns the namespace
  of the arguments.
\<close>

datatype 'a parsed = Usage_error | Help string | Namespace 'a

definition parse_args :: "'a parsed \<Rightarrow> (abort, 'a) eprog" where
  "parse_args p =
     (case p of
        Usage_error \<Rightarrow> raise (SystemExit 2)
      | Help usage \<Rightarrow> bnd (print_end usage []) (\<lambda>_. raise (SystemExit 0))
      | Namespace args \<Rightarrow> ret args)"

section \<open>Token issuer\<close>

text \<open>
  A \<^verbatim>\<open>datetime\<close> made aware with \<^verbatim>\<open>timezone.utc\<close> is the number of microseconds since
  1970-01-01T00:00:00Z; Python represents the years 1 to 9999 only, and an addition that
  leaves this range raises \<^verbatim>\<open>OverflowError\<close>.
\<close>

type_synonym datetime = int

definition datetime_min :: datetime where
  "datetime_min = - 62135596800 * 1000000"

definition datetime_max :: datetime where
  "datetime_max = 253402300800 * 1000000 - 1"

definition timedelta_minutes :: "int \<Rightarrow> int" where
  "timedelta_minutes m = m * 60 * 1000000"

definition datetime_add :: "datetime \<Rightarrow> int \<Rightarrow> exc + datetime" where
  "datetime_add t d =
     (let r = t + d
      in if datetime_min \<le> r \<and> r \<le> datetime_max then Inr r else Inl OverflowError)"

text \<open>The payload dictionary that \<^verbatim>\<open>generate_token\<close> hands to the JWT library.\<close>

record payload =
  iss :: string
  iat :: datetime
  exp :: datetime
  aud :: string

text \<open>
  The token as PyJWT builds it: the header, the registered claims with the two time claims
  converted to whole seconds since the epoch (\<^verbatim>\<open>timegm(dt.utctimetuple())\<close> drops the
  microseconds), and the signature.  The ES256 signature itself is a parameter: \<open>sign\<close>
  takes the key material and returns \<open>None\<close> when the key is not a usable private key.
\<close>

record claims =
  claim_iss :: string
  claim_iat :: int
  claim_exp :: int
  claim_aud :: string

record jwt =
  jwt_header :: "(string \<times> string) list"
  jwt_claims :: claims
  jwt_signature :: string

type_synonym signer = "string \<Rightarrow> (string \<times> string) list \<times> claims \<Rightarrow> string option"

definition timegm :: "datetime \<Rightarrow> int" where
  "timegm t = t div 1000000"

definition jwt_encode :: "signer \<Rightarrow> payload \<Rightarrow> string \<Rightarrow> (string \<times> string) list \<Rightarrow> exc + jwt" where
  "jwt_encode sign p private_key headers =
     (let c = \<lparr>claim_iss = iss p, claim_iat = timegm (iat p),
                claim_exp = timegm (exp p), claim_aud = aud p\<rparr>
      in case sign private_key (headers, c) of
           None \<Rightarrow> Inl InvalidKeyError
         | Some s \<Rightarrow> Inr \<lparr>jwt_header = headers, jwt_claims = c, jwt_signature = s\<rparr>)"

definition generate_token ::
  "signer \<Rightarrow> filesystem \<Rightarrow> datetime \<Rightarrow> string \<Rightarrow> string \<Rightarrow> string \<Rightarrow> exc + jwt" where
  "generate_token sign fs now key_id issuer_id key_file =
     (case files fs key_file of
        None \<Rightarrow> Inl (FileNotFoundError key_file)
      | Some private_key \<Rightarrow>
          (case datetime_add now (timedelta_minutes 20) of
             Inl e \<Rightarrow> Inl e
           | Inr later \<Rightarrow>
               jwt_encode sign
                 \<lparr>iss = issuer_id, iat = now, exp = later, aud = ''appstoreconnect-v1''\<rparr>
                 private_key
                 [(''alg'', ''ES256''), (''kid'', key_id), (''typ'', ''JWT'')]))"


section \<open>HTTP wrappers\<close>

definition BASE_URL :: string where
  "BASE_URL = ''https://api.appstoreconnect.apple.com/v1''"

subsection \<open>\<^verbatim>\<open>upload_gc_images.py\<close>\<close>

definition upload_api_get ::
  "server \<Rightarrow> string \<Rightarrow> string \<Rightarrow> (string \<times> json) list option \<Rightarrow> json prog" where
  "upload_api_get srv token path params =
     bnd (requests_get srv (BASE_URL @ path) (api_headers token) params) (\<lambda>resp.
       if status_code resp = 200 then lift (json_of resp)
       else bnd (print (diagnostic ''    GET ERROR '' 500 resp)) (\<lambda>_. ret JNull))"

definition upload_api_post :: "server \<Rightarrow> string \<Rightarrow> string \<Rightarrow> json \<Rightarrow> json prog" where
  "upload_api_post srv token path data =
     bnd (requests_post srv (BASE_URL @ path) (api_headers token) data) (\<lambda>resp.
       if status_code resp \<in> {200, 201} then lift (json_of resp)
       else bnd (print (diagnostic ''    POST ERROR '' 500 resp)) (\<lambda>_. ret JNull))"

definition upload_api_patch :: "server \<Rightarrow> string \<Rightarrow> string \<Rightarrow> json \<Rightarrow> json prog" where
  "upload_api_patch srv token path data =
     bnd (requests_patch srv (BASE_URL @ path) (api_headers token) data) (\<lambda>resp.
       if status_code resp = 200 then lift (json_of resp)
       else bnd (print (diagnostic ''    PATCH ERROR '' 500 resp)) (\<lambda>_. ret JNull))"

definition upload_api_delete :: "server \<Rightarrow> string \<Rightarrow> string \<Rightarrow> bool prog" where
  "upload_api_delete srv token path =
     bnd (requests_delete srv (BASE_URL @ path) (api_headers token)) (\<lambda>resp.
       if status_code resp \<in> {200, 204} then ret True
       else bnd (print (diagnostic ''    DELETE ERROR '' 500 resp)) (\<lambda>_. ret False))"

subsection \<open>\<^verbatim>\<open>setup_game_center.py\<close>\<close>

definition setup_api_post :: "server \<Rightarrow> string \<Rightarrow> string \<Rightarrow> json \<Rightarrow> json prog" where
  "setup_api_post srv token path data =
     bnd (requests_post srv (BASE_URL @ path) (api_headers token) data) (\<lambda>resp.
       if status_code resp \<in> {200, 201} then lift (json_of resp)
       else bnd (print (diagnostic ''  ERROR '' 500 resp)) (\<lambda>_. ret JNull))"

definition setup_api_get :: "server \<Rightarrow> string \<Rightarrow> string \<Rightarrow> json prog" where
  "setup_api_get srv token path =
     bnd (requests_get srv (BASE_URL @ path) (api_headers token) None) (\<lambda>resp.
       if status_code resp = 200 then lift (json_of resp)
       else bnd (print (diagnostic ''  ERROR '' 500 resp)) (\<lambda>_. ret JNull))"

subsection \<open>\<^verbatim>\<open>submit_gc_for_review.py\<close>\<close>

definition submit_api_get ::
  "server \<Rightarrow> string \<Rightarrow> string \<Rightarrow> (string \<times> json) list option \<Rightarrow> json prog" where
  "submit_api_get srv token path params =
     bnd (requests_get srv (BASE_URL @ path) (api_headers token) params) (\<lambda>resp.
       if status_code resp = 200 then lift (json_of resp)
       else bnd (print (diagnostic ''  GET ERROR '' 500 resp)) (\<lambda>_. ret JNull))"

definition submit_api_post :: "server \<Rightarrow> string \<Rightarrow> string \<Rightarrow> json \<Rightarrow> json prog" where
  "submit_api_post srv token path data =
     bnd (requests_post srv (BASE_URL @ path) (api_headers token) data) (\<lambda>resp.
       if status_code resp \<in> {200, 201} then lift (json_of resp)
       else bnd (print (diagnostic ''  POST ERROR '' 500 resp)) (\<lambda>_. ret JNull))"

subsection \<open>\<^verbatim>\<open>add_gc_to_review.py\<close>\<close>

text \<open>Here \<^verbatim>\<open>api_post\<close> returns the response object itself when the status is neither
  200 nor 201, and \<^verbatim>\<open>api_delete\<close> returns the response whatever its status; neither
  prints.\<close>

datatype post_result = Decoded json | Response response

definition add_api_get ::
  "server \<Rightarrow> string \<Rightarrow> string \<Rightarrow> (string \<times> json) list option \<Rightarrow> json prog" where
  "add_api_get srv token url params =
     bnd (requests_get srv url (api_headers token) params) (\<lambda>resp.
       if status_code resp = 200 then lift (json_of resp)
       else bnd (print (diagnostic ''  GET ERROR '' 500 resp)) (\<lambda>_. ret JNull))"

definition add_api_post :: "server \<Rightarrow> string \<Rightarrow> string \<Rightarrow> json \<Rightarrow> post_result prog" where
  "add_api_post srv token url data =
     bnd (requests_post srv url (api_headers token) data) (\<lambda>resp.
       if status_code resp \<in> {200, 201} then bnd (lift (json_of resp)) (\<lambda>j. ret (Decoded j))
       else ret (Response resp))"

definition add_api_delete :: "server \<Rightarrow> string \<Rightarrow> string \<Rightarrow> response prog" where
  "add_api_delete srv token url = requests_delete srv url (api_headers token)"

section \<open>Paginated fetcher\<close>

text \<open>
  One iteration of the \<^verbatim>\<open>while url:\<close> loop, entered with a truthy \<open>url\<close>: the request,
  the status check that breaks out of the loop (\<open>None\<close> for the next URL), and otherwise
  the extension of \<open>all_data\<close> and the next URL.  The three copies of the loop differ in
  the label and the length of the diagnostic only.
\<close>

definition page_iteration ::
  "server \<Rightarrow> string \<Rightarrow> string \<Rightarrow> nat \<Rightarrow> json \<Rightarrow> (string \<times> json) list option \<Rightarrow> json list
     \<Rightarrow> (json list \<times> json option) prog" where
  "page_iteration srv token label lim url params all_data =
     (case url of
        JStr u \<Rightarrow>
          bnd (requests_get srv u (api_headers token) params) (\<lambda>resp.
            if status_code resp \<noteq> 200
            then bnd (print (diagnostic label lim resp)) (\<lambda>_. ret (all_data, None))
            else
              bnd (lift (json_of resp)) (\<lambda>result.
              bnd (lift (py_get result ''data'' (JArr []))) (\<lambda>d.
              bnd (lift (py_iter d)) (\<lambda>items.
              bnd (lift (py_get result ''links'' (JObj []))) (\<lambda>links.
              bnd (lift (py_get links ''next'' JNull)) (\<lambda>nxt.
                ret (all_data @ items, Some nxt)))))))
      | _ \<Rightarrow> raise MissingSchema)"

text \<open>
  The loop itself.  Nothing bounds the number of pages a server may hand out, so the loop
  is a partial function: \<open>None\<close> is the run that never returns.
\<close>

partial_function (option) pages_loop ::
  "server \<Rightarrow> string \<Rightarrow> string \<Rightarrow> nat \<Rightarrow> json \<Rightarrow> (string \<times> json) list option \<Rightarrow> json list
     \<Rightarrow> world \<Rightarrow> ((exc + json list) \<times> world) option" where
  "pages_loop srv token label lim url params all_data w =
     (if truthy url then
        (case page_iteration srv token label lim url params all_data w of
           (Inl e, w1) \<Rightarrow> Some (Inl e, w1)
         | (Inr (all_data1, None), w1) \<Rightarrow> Some (Inr all_data1, w1)
         | (Inr (all_data1, Some nxt), w1) \<Rightarrow>
             pages_loop srv token label lim nxt None all_data1 w1)
      else Some (Inr all_data, w))"

definition upload_api_get_all_pages ::
  "server \<Rightarrow> string \<Rightarrow> string \<Rightarrow> (string \<times> json) list option \<Rightarrow> world
     \<Rightarrow> ((exc + json list) \<times> world) option" where
  "upload_api_get_all_pages srv token path params =
     pages_loop srv token ''    GET ERROR '' 500 (JStr (BASE_URL @ path)) params []"

definition submit_api_get_all_pages ::
  "server \<Rightarrow> string \<Rightarrow> string \<Rightarrow> (string \<times> json) list option \<Rightarrow> world
     \<Rightarrow> ((exc + json list) \<times> world) option" where
  "submit_api_get_all_pages srv token path params =
     pages_loop srv token ''  GET ERROR '' 500 (JStr (BASE_URL @ path)) params []"

definition add_get_all_pages ::
  "server \<Rightarrow> string \<Rightarrow> string \<Rightarrow> (string \<times> json) list option \<Rightarrow> world
     \<Rightarrow> ((exc + json list) \<times> world) option" where
  "add_get_all_pages srv token url params =
     pages_loop srv token ''  GET ERROR '' 300 (JStr url) params []"

subsection \<open>Sequences of pages\<close>

text \<open>
  A response is a page with the items \<open>items\<close> and the next link \<open>nxt\<close> when its status
  is 200 and its body is an object whose \<^verbatim>\<open>data\<close> is the list of items and whose
  \<^verbatim>\<open>links.next\<close> is the link, a non-empty string; a page without \<^verbatim>\<open>links\<close> or
  without \<^verbatim>\<open>next\<close> in it has no next link.
\<close>

definition is_page :: "response \<Rightarrow> json list \<Rightarrow> string option \<Rightarrow> bool" where
  "is_page resp items nxt =
     (status_code resp = 200 \<and>
      (case resp_json resp of
         Some (JObj kvs) \<Rightarrow>
           map_of kvs ''data'' = Some (JArr items) \<and>
           (case map_of kvs ''links'' of
              None \<Rightarrow> nxt = None
            | Some (JObj ls) \<Rightarrow>
                (case map_of ls ''next'' of
                   None \<Rightarrow> nxt = None
                 | Some (JStr u) \<Rightarrow> nxt = Some u \<and> u \<noteq> []
                 | Some _ \<Rightarrow> False)
            | Some _ \<Rightarrow> False)
       | _ \<Rightarrow> False))"

text \<open>
  \<open>serves srv token lg url params pages\<close>: after the requests \<open>lg\<close>, the server answers
  the GET of \<open>url\<close> with the first page, the GET of that page's next link with the second
  page, and so on; every page but the last has a next link, and the last has none.
\<close>

fun serves ::
  "server \<Rightarrow> string \<Rightarrow> request list \<Rightarrow> string \<Rightarrow> (string \<times> json) list option
     \<Rightarrow> (json list \<times> string option) list \<Rightarrow> bool" where
  "serves srv token lg url params [] = False"
| "serves srv token lg url params ((items, nxt) # ps) =
     (case srv lg (get_request url (api_headers token) params) of
        Inl e \<Rightarrow> False
      | Inr resp \<Rightarrow>
          is_page resp items nxt \<and>
          (case nxt of
             None \<Rightarrow> ps = []
           | Some u \<Rightarrow>
               ps \<noteq> [] \<and>
               serves srv token (lg @ [get_request url (api_headers token) params]) u None ps))"

text \<open>The requests that following the pages takes: the first URL with the caller's
  parameters, then each next link without parameters.\<close>

fun page_requests ::
  "string \<Rightarrow> string \<Rightarrow> (string \<times> json) list option \<Rightarrow> (json list \<times> string option) list
     \<Rightarrow> request list" where
  "page_requests token url params [] = []"
| "page_requests token url params ((items, nxt) # ps) =
     get_request url (api_headers token) params #
     (case nxt of None \<Rightarrow> [] | Some u \<Rightarrow> page_requests token u None ps)"

text \<open>
  \<open>serves_until srv token lg url params pages bad\<close>: the server hands out the pages, each
  with a next link, and answers the request that follows the last of them with the
  response \<open>bad\<close>, whose status is not 200.
\<close>

fun serves_until ::
  "server \<Rightarrow> string \<Rightarrow> request list \<Rightarrow> string \<Rightarrow> (string \<times> json) list option
     \<Rightarrow> (json list \<times> string) list \<Rightarrow> response \<Rightarrow> bool" where
  "serves_until srv token lg url params [] bad =
     (srv lg (get_request url (api_headers token) params) = Inr bad \<and> status_code bad \<noteq> 200)"
| "serves_until srv token lg url params ((items, u) # ps) bad =
     (case srv lg (get_request url (api_headers token) params) of
        Inl e \<Rightarrow> False
      | Inr resp \<Rightarrow>
          is_page resp items (Some u) \<and>
          serves_until srv token (lg @ [get_request url (api_headers token) params]) u None ps bad)"

fun requests_until ::
  "string \<Rightarrow> string \<Rightarrow> (string \<times> json) list option \<Rightarrow> (json list \<times> string) list
     \<Rightarrow> request list" where
  "requests_until token url params [] = [get_request url (api_headers token) params]"
| "requests_until token url params ((items, u) # ps) =
     get_request url (api_headers token) params # requests_until token u None ps"

section \<open>The environment of a run\<close>

text \<open>Everything outside the script that a run depends on: the signature primitive and
  the compact serialisation of the JWT library, the file system, the clock, the directory
  of the script and the server.\<close>

record env =
  env_sign :: signer
  env_compact :: "jwt \<Rightarrow> string"
  env_fs :: filesystem
  env_now :: datetime
  env_script_dir :: string
  env_server :: server

section \<open>Image upload (\<^verbatim>\<open>upload_gc_images.py\<close>)\<close>

text \<open>The condition \<^verbatim>\<open>x and x.get("data")\<close>; \<^verbatim>\<open>not x or not x.get("data")\<close> is its
  negation.\<close>

definition truthy_data :: "json \<Rightarrow> exc + bool" where
  "truthy_data x =
     (if truthy x then thn (py_get x ''data'' JNull) (\<lambda>d. Inr (truthy d)) else Inr False)"

subsection \<open>Sending the byte ranges\<close>

fun dict_set :: "('k \<times> 'v) list \<Rightarrow> 'k \<Rightarrow> 'v \<Rightarrow> ('k \<times> 'v) list" where
  "dict_set [] k v = [(k, v)]"
| "dict_set ((k', v') # kvs) k v =
     (if k' = k then (k, v) # kvs else (k', v') # dict_set kvs k v)"

fun hashable :: "json \<Rightarrow> bool" where
  "hashable (JArr xs) = False"
| "hashable (JObj kvs) = False"
| "hashable _ = True"

text \<open>\<^verbatim>\<open>{h["name"]: h["value"] for h in op["requestHeaders"]}\<close>.\<close>

fun header_dict :: "json list \<Rightarrow> (json \<times> json) list \<Rightarrow> exc + (json \<times> json) list" where
  "header_dict [] acc = Inr acc"
| "header_dict (h # hs) acc =
     thn (py_getitem h ''name'') (\<lambda>name.
     thn (py_getitem h ''value'') (\<lambda>v.
       if hashable name then header_dict hs (dict_set acc name v) else Inl TypeError))"

text \<open>What the HTTP library does with the headers of a call before it sends anything.
  When the headers are merged with those of the session, every name is lower-cased
  (\<^verbatim>\<open>key.lower()\<close>), which raises \<^verbatim>\<open>AttributeError\<close> for a name that is not a string, and
  a header whose value is \<^verbatim>\<open>None\<close> is dropped. When the request is prepared, after the URL
  has been checked, a remaining value that is not a string is refused with
  \<^verbatim>\<open>InvalidHeader\<close>. The strings themselves are taken to be well-formed header text, and
  the log keeps the remaining headers as the caller wrote them.\<close>

fun merge_headers :: "(json \<times> json) list \<Rightarrow> exc + (string \<times> json) list" where
  "merge_headers [] = Inr []"
| "merge_headers ((JStr n, v) # kvs) =
     thn (merge_headers kvs) (\<lambda>r. Inr (if v = JNull then r else (n, v) # r))"
| "merge_headers _ = Inl AttributeError"

fun check_headers :: "(string \<times> json) list \<Rightarrow> exc + (string \<times> string) list" where
  "check_headers [] = Inr []"
| "check_headers ((n, JStr v) # kvs) = thn (check_headers kvs) (\<lambda>r. Inr ((n, v) # r))"
| "check_headers _ = Inl InvalidHeader"

text \<open>The byte range of an operation: \<^verbatim>\<open>offset = op.get("offset", 0)\<close> and
  \<^verbatim>\<open>length = op["length"]\<close>, both used as integers; and the chunk
  \<^verbatim>\<open>file_data[offset:offset + length]\<close> of a range.\<close>

definition op_range :: "json \<Rightarrow> exc + int \<times> int" where
  "op_range op =
     thn (py_get op ''offset'' (JNum 0)) (\<lambda>offset.
     thn (py_getitem op ''length'') (\<lambda>len.
     thn (py_int offset) (\<lambda>i.
     thn (py_int len) (\<lambda>n.
       Inr (i, n)))))"

definition chunk :: "string \<Rightarrow> int \<times> int \<Rightarrow> string" where
  "chunk file_data r = py_slice file_data (fst r) (fst r + snd r)"

definition op_chunk :: "string \<Rightarrow> json \<Rightarrow> exc + string" where
  "op_chunk file_data op = thn (op_range op) (\<lambda>r. Inr (chunk file_data r))"

text \<open>The request that the loop of \<^verbatim>\<open>upload_image_data\<close> makes of one operation.\<close>

definition op_request :: "string \<Rightarrow> json \<Rightarrow> exc + request" where
  "op_request file_data op =
     thn (py_getitem op ''method'') (\<lambda>method.
     thn (py_getitem op ''url'') (\<lambda>url.
     thn (py_getitem op ''requestHeaders'') (\<lambda>hs.
     thn (py_iter hs) (\<lambda>hl.
     thn (header_dict hl []) (\<lambda>req_headers.
     thn (op_chunk file_data op) (\<lambda>chunk.
     thn (case method of JStr m \<Rightarrow> Inr m | _ \<Rightarrow> Inl AttributeError) (\<lambda>m.
     thn (merge_headers req_headers) (\<lambda>merged.
     thn (case url of JStr u \<Rightarrow> Inr u | _ \<Rightarrow> Inl MissingSchema) (\<lambda>u.
     thn (check_headers merged) (\<lambda>hdrs.
       Inr \<lparr>rq_method = m, rq_url = u, rq_headers = hdrs, rq_params = None,
            rq_body = DataBody chunk\<rparr>))))))))))"

fun upload_ops_loop :: "server \<Rightarrow> string \<Rightarrow> json list \<Rightarrow> bool prog" where
  "upload_ops_loop srv file_data [] = ret True"
| "upload_ops_loop srv file_data (op # ops) =
     bnd (lift (op_request file_data op)) (\<lambda>rq.
     bnd (requests_request srv rq) (\<lambda>resp.
       if status_code resp \<notin> {200, 201, 204}
       then bnd (print (diagnostic ''    UPLOAD ERROR '' 300 resp)) (\<lambda>_. ret False)
       else upload_ops_loop srv file_data ops))"

definition upload_image_data :: "server \<Rightarrow> filesystem \<Rightarrow> json \<Rightarrow> string \<Rightarrow> bool prog" where
  "upload_image_data srv fs upload_operations file_path =
     bnd (lift (open_read fs file_path)) (\<lambda>file_data.
     bnd (lift (py_iter upload_operations)) (\<lambda>ops.
       upload_ops_loop srv file_data ops))"

subsection \<open>Replacing an image\<close>

definition delete_existing_image ::
  "server \<Rightarrow> string \<Rightarrow> string \<Rightarrow> string \<Rightarrow> json \<Rightarrow> bool prog" where
  "delete_existing_image srv token resource_type localization_type localization_id =
     (let image_rel = rstrip ''s'' resource_type in
      bnd (upload_api_get srv token
             (''/'' @ localization_type @ ''s/'' @ py_str localization_id @ ''/'' @ image_rel)
             None) (\<lambda>result.
      bnd (lift (truthy_data result)) (\<lambda>found.
        if found then
          bnd (lift (thn (py_getitem result ''data'') (\<lambda>d. py_getitem d ''id''))) (\<lambda>image_id.
          bnd (print_end (''    Deleting existing image '' @ py_str image_id @ ''...'') '' '') (\<lambda>_.
          bnd (upload_api_delete srv token
                 (''/'' @ resource_type @ ''/'' @ py_str image_id)) (\<lambda>deleted.
            if deleted then bnd (print ''OK'') (\<lambda>_. ret True)
            else bnd (print ''FAILED'') (\<lambda>_. ret False))))
        else ret True)))"

text \<open>The body of the reservation request.\<close>

definition reservation_data :: "string \<Rightarrow> string \<Rightarrow> json \<Rightarrow> int \<Rightarrow> string \<Rightarrow> json" where
  "reservation_data resource_type localization_type localization_id file_size file_name =
     JObj [(''data'', JObj
       [(''type'', JStr resource_type),
        (''attributes'', JObj [(''fileSize'', JNum file_size), (''fileName'', JStr file_name)]),
        (''relationships'', JObj
           [(localization_type, JObj
              [(''data'', JObj [(''type'', JStr (localization_type @ ''s'')),
                                (''id'', localization_id)])])])])]"

definition commit_data :: "string \<Rightarrow> json \<Rightarrow> json" where
  "commit_data resource_type image_id =
     JObj [(''data'', JObj
       [(''type'', JStr resource_type),
        (''id'', image_id),
        (''attributes'', JObj [(''uploaded'', JBool True)])])]"

text \<open>\<^verbatim>\<open>x["data"]["attributes"].get("assetDeliveryState", {}).get("state", default)\<close>.\<close>

definition delivery_state :: "json \<Rightarrow> json \<Rightarrow> exc + json" where
  "delivery_state x dflt =
     thn (py_getitem x ''data'') (\<lambda>d.
     thn (py_getitem d ''attributes'') (\<lambda>a.
     thn (py_get a ''assetDeliveryState'' (JObj [])) (\<lambda>s.
       py_get s ''state'' dflt)))"

text \<open>The steps of \<^verbatim>\<open>create_and_upload_image\<close> that come after the deletion of the old
  image: the reservation, the upload of the byte ranges and the commit.\<close>

definition reserve_upload_commit ::
  "server \<Rightarrow> filesystem \<Rightarrow> string \<Rightarrow> string \<Rightarrow> string \<Rightarrow> json \<Rightarrow> string \<Rightarrow> bool prog" where
  "reserve_upload_commit srv fs token resource_type localization_type localization_id image_path =
     bnd (lift (getsize fs image_path)) (\<lambda>file_size.
     (let file_name = basename image_path in
      bnd (upload_api_post srv token (''/'' @ resource_type)
             (reservation_data resource_type localization_type localization_id
                file_size file_name)) (\<lambda>result.
        if \<not> truthy result then ret False
        else
          bnd (lift (thn (py_getitem result ''data'') (\<lambda>d. py_getitem d ''id''))) (\<lambda>image_id.
          bnd (lift (thn (py_getitem result ''data'') (\<lambda>d.
                     thn (py_getitem d ''attributes'') (\<lambda>a.
                       py_get a ''uploadOperations'' (JArr []))))) (\<lambda>upload_ops.
          bnd (lift (delivery_state result (JStr ''''))) (\<lambda>asset_state.
            if \<not> truthy upload_ops then
              bnd (print (''    No upload operations returned (state: '' @ py_str asset_state
                          @ '')'')) (\<lambda>_. ret False)
            else
              bnd (lift (py_len upload_ops)) (\<lambda>n.
              bnd (print_end (''    Uploading '' @ file_name @ '' ('' @ str_int file_size
                              @ '' bytes, '' @ str_int n @ '' ops)...'') '' '') (\<lambda>_.
              bnd (upload_image_data srv fs upload_ops image_path) (\<lambda>success.
                if \<not> success then bnd (print ''FAILED'') (\<lambda>_. ret False)
                else
                  bnd (upload_api_patch srv token
                         (''/'' @ resource_type @ ''/'' @ py_str image_id)
                         (commit_data resource_type image_id)) (\<lambda>commit_result.
                    if truthy commit_result then
                      bnd (lift (delivery_state commit_result (JStr ''UNKNOWN''))) (\<lambda>state.
                      bnd (print (''OK (state: '' @ py_str state @ '')'')) (\<lambda>_. ret True))
                    else bnd (print ''COMMIT FAILED'') (\<lambda>_. ret False)))))))))))"

definition create_and_upload_image ::
  "server \<Rightarrow> filesystem \<Rightarrow> string \<Rightarrow> string \<Rightarrow> string \<Rightarrow> json \<Rightarrow> string \<Rightarrow> bool prog" where
  "create_and_upload_image srv fs token resource_type localization_type localization_id image_path =
     bnd (delete_existing_image srv token resource_type localization_type localization_id)
       (\<lambda>_. reserve_upload_commit srv fs token resource_type localization_type localization_id
               image_path)"

subsection \<open>Byte ranges that partition a file\<close>

text \<open>
  \<open>covers pos rs S\<close>: the ranges \<open>rs\<close>, in this order, are non-empty, start at \<open>pos\<close>,
  follow each other without gap or overlap, and end at \<open>S\<close>.  The ranges of a reservation
  partition \<open>[0, S)\<close> when they do so once ordered by offset.
\<close>

fun covers :: "int \<Rightarrow> (int \<times> int) list \<Rightarrow> int \<Rightarrow> bool" where
  "covers pos [] S = (pos = S)"
| "covers pos (r # rs) S = (fst r = pos \<and> 0 < snd r \<and> covers (pos + snd r) rs S)"

definition partitions :: "(int \<times> int) list \<Rightarrow> int \<Rightarrow> bool" where
  "partitions ranges S = covers 0 (sort_key fst ranges) S"

text \<open>\<open>accepts srv lg rqs\<close>: issued one after the other after the requests \<open>lg\<close>, each
  of the requests \<open>rqs\<close> is answered with status 200, 201 or 204.\<close>

fun accepts :: "server \<Rightarrow> request list \<Rightarrow> request list \<Rightarrow> bool" where
  "accepts srv lg [] = True"
| "accepts srv lg (rq # rqs) =
     (case srv lg rq of
        Inl e \<Rightarrow> False
      | Inr resp \<Rightarrow> status_code resp \<in> {200, 201, 204} \<and> accepts srv (lg @ [rq]) rqs)"

subsection \<open>A localization without an image\<close>

text \<open>A response to the GET of the image relationship shows that there is nothing to
  delete when the GET failed, or succeeded with an empty body or with a body whose
  \<^verbatim>\<open>data\<close> is missing or empty.\<close>

fun no_data :: "json \<Rightarrow> bool" where
  "no_data (JObj kvs) = (case map_of kvs ''data'' of None \<Rightarrow> True | Some d \<Rightarrow> \<not> truthy d)"
| "no_data j = (\<not> truthy j)"

definition no_existing_image :: "response \<Rightarrow> bool" where
  "no_existing_image resp =
     (if status_code resp = 200
      then (case resp_json resp of None \<Rightarrow> False | Some j \<Rightarrow> no_data j)
      else True)"

subsection \<open>Uploading the images of all achievements or leaderboards\<close>

text \<open>\<^verbatim>\<open>upload_achievement_images\<close> and \<^verbatim>\<open>upload_leaderboard_images\<close> are the same function
  up to the names below.\<close>

record image_kind =
  ik_banner :: string
  ik_collection :: string
  ik_plural :: string
  ik_dir :: string
  ik_resource_type :: string
  ik_localization_type :: string
  ik_summary :: string

definition achievement_images :: image_kind where
  "achievement_images =
     \<lparr>ik_banner = ''[1/2] Uploading achievement images...'',
      ik_collection = ''gameCenterAchievements'',
      ik_plural = ''achievements'',
      ik_dir = ''achievements'',
      ik_resource_type = ''gameCenterAchievementImages'',
      ik_localization_type = ''gameCenterAchievementLocalization'',
      ik_summary = ''Achievement images''\<rparr>"

definition leaderboard_images :: image_kind where
  "leaderboard_images =
     \<lparr>ik_banner = ''[2/2] Uploading leaderboard images...'',
      ik_collection = ''gameCenterLeaderboards'',
      ik_plural = ''leaderboards'',
      ik_dir = ''leaderboards'',
      ik_resource_type = ''gameCenterLeaderboardImages'',
      ik_localization_type = ''gameCenterLeaderboardLocalization'',
      ik_summary = ''Leaderboard images''\<rparr>"

text \<open>\<^verbatim>\<open>ACH_DIR\<close> and \<^verbatim>\<open>LB_DIR\<close>.\<close>

definition images_dir :: "string \<Rightarrow> image_kind \<Rightarrow> string" where
  "images_dir script_dir kind = path_join (path_join script_dir ''gc_images'') (ik_dir kind)"

text \<open>The body of the loop over the fetched items, with the counters \<open>uploaded\<close>,
  \<open>skipped\<close> and \<open>failed\<close>.\<close>

definition image_iteration ::
  "server \<Rightarrow> filesystem \<Rightarrow> string \<Rightarrow> image_kind \<Rightarrow> string \<Rightarrow> json \<Rightarrow> int \<times> int \<times> int
     \<Rightarrow> (exc, int \<times> int \<times> int) nprog" where
  "image_iteration srv fs script_dir kind token item counters =
     (case counters of (uploaded, skipped, failed) \<Rightarrow>
      nbnd (total (lift (thn (py_getitem item ''attributes'') (\<lambda>a. py_getitem a ''vendorIdentifier'')))) (\<lambda>vendor_id.
      nbnd (total (lift (py_getitem item ''id''))) (\<lambda>item_id.
      nbnd (total (lift (thn (py_getitem item ''attributes'') (\<lambda>a. py_getitem a ''referenceName'')))) (\<lambda>ref_name.
      (let image_path = path_join (images_dir script_dir kind) (py_str vendor_id @ ''.png'') in
       if \<not> path_exists fs image_path then
         nbnd (total (print (''  ['' @ py_str vendor_id @ ''] No image file found at '' @ image_path
                             @ '', skipping''))) (\<lambda>_.
           total (ret (uploaded, skipped + 1, failed)))
       else
         nbnd (upload_api_get_all_pages srv token
                 (''/'' @ ik_collection kind @ ''/'' @ py_str item_id @ ''/localizations'') None) (\<lambda>locs.
           if locs = [] then
             nbnd (total (print (''  ['' @ py_str vendor_id @ ''] No localizations found, skipping''))) (\<lambda>_.
               total (ret (uploaded, skipped + 1, failed)))
           else
             nbnd (total (lift (py_getitem (hd locs) ''id''))) (\<lambda>loc_id.
             nbnd (total (lift (thn (py_getitem (hd locs) ''attributes'') (\<lambda>a. py_getitem a ''locale'')))) (\<lambda>loc_locale.
             nbnd (total (print (''  ['' @ py_str vendor_id @ ''] '' @ py_str ref_name @ '' (loc: ''
                                 @ py_str loc_locale @ '', id: '' @ py_str loc_id @ '')''))) (\<lambda>_.
             nbnd (total (create_and_upload_image srv fs token (ik_resource_type kind)
                            (ik_localization_type kind) loc_id image_path)) (\<lambda>success.
               total (ret (if success then (uploaded + 1, skipped, failed)
                           else (uploaded, skipped, failed + 1)))))))))))))"

fun images_loop ::
  "server \<Rightarrow> filesystem \<Rightarrow> string \<Rightarrow> image_kind \<Rightarrow> string \<Rightarrow> json list \<Rightarrow> int \<times> int \<times> int
     \<Rightarrow> (exc, int \<times> int \<times> int) nprog" where
  "images_loop srv fs script_dir kind token [] counters = total (ret counters)"
| "images_loop srv fs script_dir kind token (item # items) counters =
     nbnd (image_iteration srv fs script_dir kind token item counters)
       (images_loop srv fs script_dir kind token items)"

definition upload_images ::
  "server \<Rightarrow> filesystem \<Rightarrow> string \<Rightarrow> image_kind \<Rightarrow> string \<Rightarrow> string \<Rightarrow> (exc, unit) nprog" where
  "upload_images srv fs script_dir kind token app_id =
     nbnd (total (print (newline @ ik_banner kind))) (\<lambda>_.
     nbnd (total (upload_api_get srv token (''/apps/'' @ app_id @ ''/gameCenterDetail'') None)) (\<lambda>gc_result.
     nbnd (total (lift (truthy_data gc_result))) (\<lambda>found.
       if \<not> found then total (print ''  ERROR: Could not find Game Center Detail'')
       else
         nbnd (total (lift (thn (py_getitem gc_result ''data'') (\<lambda>d. py_getitem d ''id'')))) (\<lambda>gc_detail_id.
         nbnd (total (print (''  Game Center Detail: '' @ py_str gc_detail_id))) (\<lambda>_.
         nbnd (upload_api_get_all_pages srv token
                 (''/gameCenterDetails/'' @ py_str gc_detail_id @ ''/'' @ ik_collection kind)
                 (Some [(''limit'', JNum 200)])) (\<lambda>items.
         nbnd (total (print (''  Found '' @ str_int (int (length items)) @ '' '' @ ik_plural kind))) (\<lambda>_.
         nbnd (images_loop srv fs script_dir kind token items (0, 0, 0)) (\<lambda>counters.
           (case counters of (uploaded, skipped, failed) \<Rightarrow>
             total (print (newline @ ''  '' @ ik_summary kind @ '': '' @ str_int uploaded
                           @ '' uploaded, '' @ str_int skipped @ '' skipped, '' @ str_int failed
                           @ '' failed'')))))))))))"

definition upload_achievement_images ::
  "server \<Rightarrow> filesystem \<Rightarrow> string \<Rightarrow> string \<Rightarrow> string \<Rightarrow> (exc, unit) nprog" where
  "upload_achievement_images srv fs script_dir token app_id =
     upload_images srv fs script_dir achievement_images token app_id"

definition upload_leaderboard_images ::
  "server \<Rightarrow> filesystem \<Rightarrow> string \<Rightarrow> string \<Rightarrow> string \<Rightarrow> (exc, unit) nprog" where
  "upload_leaderboard_images srv fs script_dir token app_id =
     upload_images srv fs script_dir leaderboard_images token app_id"

subsection \<open>Main and the dry run\<close>

record upload_args =
  ua_key_id :: string
  ua_issuer_id :: string
  ua_key_file :: string
  ua_app_id :: string
  ua_achievements_only :: bool
  ua_leaderboards_only :: bool
  ua_dry_run :: bool

text \<open>The format \<^verbatim>\<open>{size:>8,d}\<close>: decimal digits in groups of three, right-aligned in a
  field of eight.\<close>

fun commas :: "nat \<Rightarrow> string" where
  "commas n =
     (if n < 1000 then str_nat n
      else commas (n div 1000) @ '','' @
           [''0123456789'' ! (n mod 1000 div 100), ''0123456789'' ! (n mod 100 div 10),
            ''0123456789'' ! (n mod 10)])"

definition format_size :: "int \<Rightarrow> string" where
  "format_size sz = rjust 8 (if sz < 0 then ''-'' @ commas (nat (- sz)) else commas (nat sz))"

definition image_line :: "string \<Rightarrow> int \<Rightarrow> string" where
  "image_line f sz = ''  '' @ ljust 40 f @ ''  '' @ format_size sz @ '' bytes''"

fun list_images_loop :: "filesystem \<Rightarrow> string \<Rightarrow> string list \<Rightarrow> unit prog" where
  "list_images_loop fs dir [] = ret ()"
| "list_images_loop fs dir (f # fs') =
     (if endswith f ''.png'' then
        bnd (lift (getsize fs (path_join dir f))) (\<lambda>sz.
        bnd (print (image_line f sz)) (\<lambda>_. list_images_loop fs dir fs'))
      else list_images_loop fs dir fs')"

definition list_images :: "filesystem \<Rightarrow> string \<Rightarrow> unit prog" where
  "list_images fs dir =
     bnd (lift (listdir fs dir)) (\<lambda>names. list_images_loop fs dir (sort names))"

definition upload_run :: "env \<Rightarrow> upload_args \<Rightarrow> (abort, unit) nprog" where
  "upload_run env args =
     (if ua_dry_run args then
        total (uncaught (
          bnd (print (''DRY RUN - listing image files'' @ newline)) (\<lambda>_.
          bnd (print ''Achievement images:'') (\<lambda>_.
          bnd (list_images (env_fs env) (images_dir (env_script_dir env) achievement_images)) (\<lambda>_.
          bnd (print (newline @ ''Leaderboard images:'')) (\<lambda>_.
            list_images (env_fs env) (images_dir (env_script_dir env) leaderboard_images)))))))
      else
        nuncaught (
          nbnd (total (print ''Generating JWT token...'')) (\<lambda>_.
          nbnd (total (lift (generate_token (env_sign env) (env_fs env) (env_now env)
                  (ua_key_id args) (ua_issuer_id args) (ua_key_file args)))) (\<lambda>tok.
          (let token = env_compact env tok;
               do_both = (\<not> ua_achievements_only args \<and> \<not> ua_leaderboards_only args) in
           nbnd (total (print (''  Token generated.'' @ newline))) (\<lambda>_.
           nbnd (if do_both \<or> ua_achievements_only args
                 then upload_achievement_images (env_server env) (env_fs env) (env_script_dir env)
                        token (ua_app_id args)
                 else total (ret ())) (\<lambda>_.
           nbnd (if do_both \<or> ua_leaderboards_only args
                 then upload_leaderboard_images (env_server env) (env_fs env) (env_script_dir env)
                        token (ua_app_id args)
                 else total (ret ())) (\<lambda>_.
             total (print (newline @ ''Done!''))))))))))"

definition upload_main :: "env \<Rightarrow> upload_args parsed \<Rightarrow> (abort, unit) nprog" where
  "upload_main env p = nbnd (total (parse_args p)) (upload_run env)"

section \<open>Effects on the request log and the output\<close>

text \<open>A computation only ever appends to the log of requests; a silent one issues no
  request at all.\<close>

definition grows :: "('e, 'a) eprog \<Rightarrow> bool" where
  "grows m = (\<forall>w. \<exists>more. log (snd (m w)) = log w @ more)"

definition silent :: "('e, 'a) eprog \<Rightarrow> bool" where
  "silent m = (\<forall>w. log (snd (m w)) = log w)"


text \<open>The size of a file that exists.\<close>

definition file_size :: "filesystem \<Rightarrow> string \<Rightarrow> int" where
  "file_size fs path = (case files fs path of None \<Rightarrow> 0 | Some d \<Rightarrow> int (length d))"

section \<open>Bulk creation (\<^verbatim>\<open>setup_game_center.py\<close>)\<close>

subsection \<open>Configuration\<close>

definition NUM_LEVELS :: nat where
  "NUM_LEVELS = 60"

record leaderboard_config =
  lb_referenceName :: string
  lb_vendorIdentifier :: string
  lb_submissionType :: string
  lb_scoreSortType :: string
  lb_scoreRangeStart :: string
  lb_scoreRangeEnd :: string
  lb_defaultFormatter :: string

record achievement_config =
  ach_referenceName :: string
  ach_vendorIdentifier :: string
  ach_points :: int
  ach_repeatable :: bool
  ach_showBeforeEarned :: bool

record localization_config =
  loc_name :: string
  loc_beforeEarnedDescription :: string
  loc_afterEarnedDescription :: string

definition SCORE_LEADERBOARDS :: "leaderboard_config list" where
  "SCORE_LEADERBOARDS =
     map (\<lambda>i. \<lparr>lb_referenceName = ''Level '' @ str_nat i @ '' - Best Score'',
                lb_vendorIdentifier = ''level_'' @ str_nat i @ ''_score'',
                lb_submissionType = ''BEST_SCORE'',
                lb_scoreSortType = ''DESC'',
                lb_scoreRangeStart = ''0'',
                lb_scoreRangeEnd = ''9999'',
                lb_defaultFormatter = ''INTEGER''\<rparr>)
       [1 ..< NUM_LEVELS + 1]"

definition ACHIEVEMENTS :: "achievement_config list" where
  "ACHIEVEMENTS =
     map (\<lambda>i. \<lparr>ach_referenceName = ''Level '' @ str_nat i @ '' Complete'',
                ach_vendorIdentifier = ''level_'' @ str_nat i @ ''_complete'',
                ach_points = 1,
                ach_repeatable = False,
                ach_showBeforeEarned = True\<rparr>)
       [1 ..< NUM_LEVELS + 1]
     @ [\<lparr>ach_referenceName = ''All Levels Complete'',
          ach_vendorIdentifier = ''all_levels_complete'',
          ach_points = 40,
          ach_repeatable = False,
          ach_showBeforeEarned = True\<rparr>]"

text \<open>A dict display keeps the last value of a repeated key; the keys here are distinct,
  so the lookup in the list of entries as written finds it.\<close>

definition ACHIEVEMENT_LOCALIZATIONS :: "(string \<times> localization_config) list" where
  "ACHIEVEMENT_LOCALIZATIONS =
     map (\<lambda>i. (''level_'' @ str_nat i @ ''_complete'',
                \<lparr>loc_name = ''Level '' @ str_nat i @ '' Clear'',
                 loc_beforeEarnedDescription = ''Complete Level '' @ str_nat i,
                 loc_afterEarnedDescription = ''Cleared Level '' @ str_nat i @ ''!''\<rparr>))
       [1 ..< NUM_LEVELS + 1]
     @ [(''all_levels_complete'',
         \<lparr>loc_name = ''Number Master'',
          loc_beforeEarnedDescription = ''Complete all 60 levels'',
          loc_afterEarnedDescription = ''Cleared all 60 levels! You are the Number Master!''\<rparr>)]"

subsection \<open>Game Center detail\<close>

text \<open>\<^verbatim>\<open>get_or_create_gc_detail\<close> ends the run with \<^verbatim>\<open>sys.exit(1)\<close> when the detail can
  be neither found nor created.\<close>

definition detail_data :: "string \<Rightarrow> json" where
  "detail_data app_id =
     JObj [(''data'', JObj
       [(''type'', JStr ''gameCenterDetails''),
        (''relationships'', JObj
           [(''app'', JObj
              [(''data'', JObj [(''type'', JStr ''apps''), (''id'', JStr app_id)])])])])]"

definition get_or_create_gc_detail :: "server \<Rightarrow> string \<Rightarrow> string \<Rightarrow> (abort, json) eprog" where
  "get_or_create_gc_detail srv token app_id =
     bnd (print (newline @ ''[1/4] Getting Game Center Detail...'')) (\<lambda>_.
     bnd (uncaught (setup_api_get srv token (''/apps/'' @ app_id @ ''/gameCenterDetail''))) (\<lambda>result.
     bnd (uncaught (lift (truthy_data result))) (\<lambda>found.
       if found then
         bnd (uncaught (lift (thn (py_getitem result ''data'') (\<lambda>d. py_getitem d ''id'')))) (\<lambda>gc_detail_id.
         bnd (print (''  Found existing Game Center Detail: '' @ py_str gc_detail_id)) (\<lambda>_.
           ret gc_detail_id))
       else
         bnd (print ''  Creating new Game Center Detail...'') (\<lambda>_.
         bnd (uncaught (setup_api_post srv token ''/gameCenterDetails''
                (detail_data app_id))) (\<lambda>result.
           if truthy result then
             bnd (uncaught (lift (thn (py_getitem result ''data'') (\<lambda>d. py_getitem d ''id'')))) (\<lambda>gc_detail_id.
             bnd (print (''  Created Game Center Detail: '' @ py_str gc_detail_id)) (\<lambda>_.
               ret gc_detail_id))
           else
             bnd (print ''  FAILED to get or create Game Center Detail!'') (\<lambda>_.
               raise (SystemExit 1)))))))"

subsection \<open>Leaderboards\<close>

definition leaderboard_data :: "json \<Rightarrow> leaderboard_config \<Rightarrow> json" where
  "leaderboard_data gc_detail_id lb_config =
     JObj [(''data'', JObj
       [(''type'', JStr ''gameCenterLeaderboards''),
        (''attributes'', JObj
           [(''referenceName'', JStr (lb_referenceName lb_config)),
            (''vendorIdentifier'', JStr (lb_vendorIdentifier lb_config)),
            (''submissionType'', JStr (lb_submissionType lb_config)),
            (''scoreSortType'', JStr (lb_scoreSortType lb_config)),
            (''scoreRangeStart'', JStr (lb_scoreRangeStart lb_config)),
            (''scoreRangeEnd'', JStr (lb_scoreRangeEnd lb_config)),
            (''defaultFormatter'', JStr (lb_defaultFormatter lb_config))]),
        (''relationships'', JObj
           [(''gameCenterDetail'', JObj
              [(''data'', JObj [(''type'', JStr ''gameCenterDetails''),
                                (''id'', gc_detail_id)])])])])]"

definition create_leaderboard ::
  "server \<Rightarrow> string \<Rightarrow> json \<Rightarrow> leaderboard_config \<Rightarrow> json prog" where
  "create_leaderboard srv token gc_detail_id lb_config =
     setup_api_post srv token ''/gameCenterLeaderboards'' (leaderboard_data gc_detail_id lb_config)"

definition create_leaderboard_localization ::
  "server \<Rightarrow> string \<Rightarrow> json \<Rightarrow> string \<Rightarrow> string \<Rightarrow> json prog" where
  "create_leaderboard_localization srv token leaderboard_id name formatter_suffix =
     (let attrs = [(''locale'', JStr ''en-US''), (''name'', JStr name)]
                  @ (if formatter_suffix \<noteq> [] then [(''formatterSuffix'', JStr formatter_suffix)]
                     else [])
      in setup_api_post srv token ''/gameCenterLeaderboardLocalizations''
           (JObj [(''data'', JObj
              [(''type'', JStr ''gameCenterLeaderboardLocalizations''),
               (''attributes'', JObj attrs),
               (''relationships'', JObj
                  [(''gameCenterLeaderboard'', JObj
                     [(''data'', JObj [(''type'', JStr ''gameCenterLeaderboards''),
                                       (''id'', leaderboard_id)])])])])]))"

text \<open>The body of the \<^verbatim>\<open>for\<close> loop of \<^verbatim>\<open>create_all_leaderboards\<close>, and the loop.\<close>

definition leaderboard_iteration ::
  "server \<Rightarrow> string \<Rightarrow> json \<Rightarrow> leaderboard_config \<Rightarrow> unit prog" where
  "leaderboard_iteration srv token gc_detail_id lb =
     bnd (print_end (''  Creating: '' @ lb_referenceName lb @ ''...'') '' '') (\<lambda>_.
     bnd (create_leaderboard srv token gc_detail_id lb) (\<lambda>result.
       if truthy result then
         bnd (lift (thn (py_getitem result ''data'') (\<lambda>d. py_getitem d ''id''))) (\<lambda>lb_id.
         bnd (print (''OK (id: '' @ py_str lb_id @ '')'')) (\<lambda>_.
         bnd (create_leaderboard_localization srv token lb_id (lb_referenceName lb) '' pts'')
           (\<lambda>_. ret ())))
       else print ''FAILED''))"

fun leaderboards_loop ::
  "server \<Rightarrow> string \<Rightarrow> json \<Rightarrow> leaderboard_config list \<Rightarrow> unit prog" where
  "leaderboards_loop srv token gc_detail_id [] = ret ()"
| "leaderboards_loop srv token gc_detail_id (lb # lbs) =
     bnd (leaderboard_iteration srv token gc_detail_id lb)
       (\<lambda>_. leaderboards_loop srv token gc_detail_id lbs)"

definition create_all_leaderboards :: "server \<Rightarrow> string \<Rightarrow> json \<Rightarrow> unit prog" where
  "create_all_leaderboards srv token gc_detail_id =
     bnd (print (newline @ ''[2/4] Creating '' @ str_int (int (length SCORE_LEADERBOARDS))
                 @ '' leaderboards...''))
       (\<lambda>_. leaderboards_loop srv token gc_detail_id SCORE_LEADERBOARDS)"

subsection \<open>Achievements\<close>

definition achievement_data :: "json \<Rightarrow> achievement_config \<Rightarrow> json" where
  "achievement_data gc_detail_id ach_config =
     JObj [(''data'', JObj
       [(''type'', JStr ''gameCenterAchievements''),
        (''attributes'', JObj
           [(''referenceName'', JStr (ach_referenceName ach_config)),
            (''vendorIdentifier'', JStr (ach_vendorIdentifier ach_config)),
            (''points'', JNum (ach_points ach_config)),
            (''repeatable'', JBool (ach_repeatable ach_config)),
            (''showBeforeEarned'', JBool (ach_showBeforeEarned ach_config))]),
        (''relationships'', JObj
           [(''gameCenterDetail'', JObj
              [(''data'', JObj [(''type'', JStr ''gameCenterDetails''),
                                (''id'', gc_detail_id)])])])])]"

definition create_achievement ::
  "server \<Rightarrow> string \<Rightarrow> json \<Rightarrow> achievement_config \<Rightarrow> json prog" where
  "create_achievement srv token gc_detail_id ach_config =
     setup_api_post srv token ''/gameCenterAchievements'' (achievement_data gc_detail_id ach_config)"

definition create_achievement_localization ::
  "server \<Rightarrow> string \<Rightarrow> json \<Rightarrow> localization_config \<Rightarrow> json prog" where
  "create_achievement_localization srv token achievement_id loc_config =
     setup_api_post srv token ''/gameCenterAchievementLocalizations''
       (JObj [(''data'', JObj
          [(''type'', JStr ''gameCenterAchievementLocalizations''),
           (''attributes'', JObj
              [(''locale'', JStr ''en-US''),
               (''name'', JStr (loc_name loc_config)),
               (''beforeEarnedDescription'', JStr (loc_beforeEarnedDescription loc_config)),
               (''afterEarnedDescription'', JStr (loc_afterEarnedDescription loc_config))]),
           (''relationships'', JObj
              [(''gameCenterAchievement'', JObj
                 [(''data'', JObj [(''type'', JStr ''gameCenterAchievements''),
                                   (''id'', achievement_id)])])])])])"

definition achievement_iteration ::
  "server \<Rightarrow> string \<Rightarrow> json \<Rightarrow> achievement_config \<Rightarrow> unit prog" where
  "achievement_iteration srv token gc_detail_id ach =
     (let vid = ach_vendorIdentifier ach in
      bnd (print_end (''  Creating: '' @ ach_referenceName ach @ ''...'') '' '') (\<lambda>_.
      bnd (create_achievement srv token gc_detail_id ach) (\<lambda>result.
        if truthy result then
          bnd (lift (thn (py_getitem result ''data'') (\<lambda>d. py_getitem d ''id''))) (\<lambda>ach_id.
          bnd (print (''OK (id: '' @ py_str ach_id @ '')'')) (\<lambda>_.
          bnd (lift (case map_of ACHIEVEMENT_LOCALIZATIONS vid of
                       None \<Rightarrow> Inl (KeyError vid) | Some loc \<Rightarrow> Inr loc)) (\<lambda>loc.
          bnd (create_achievement_localization srv token ach_id loc) (\<lambda>_. ret ()))))
        else print ''FAILED'')))"

fun achievements_loop ::
  "server \<Rightarrow> string \<Rightarrow> json \<Rightarrow> achievement_config list \<Rightarrow> unit prog" where
  "achievements_loop srv token gc_detail_id [] = ret ()"
| "achievements_loop srv token gc_detail_id (ach # achs) =
     bnd (achievement_iteration srv token gc_detail_id ach)
       (\<lambda>_. achievements_loop srv token gc_detail_id achs)"

definition create_all_achievements :: "server \<Rightarrow> string \<Rightarrow> json \<Rightarrow> unit prog" where
  "create_all_achievements srv token gc_detail_id =
     bnd (print (newline @ ''[3/4] Creating '' @ str_int (int (length ACHIEVEMENTS))
                 @ '' achievements...''))
       (\<lambda>_. achievements_loop srv token gc_detail_id ACHIEVEMENTS)"

subsection \<open>Summary and main\<close>

definition print_summary :: "('e, unit) eprog" where
  "print_summary =
     bnd (print (newline @ ''[4/4] Summary'')) (\<lambda>_.
     bnd (print (replicate 60 CHR ''='')) (\<lambda>_.
     bnd (print (''  Score leaderboards: '' @ str_int (int (length SCORE_LEADERBOARDS)))) (\<lambda>_.
     bnd (print (''  Achievements:       '' @ str_int (int (length ACHIEVEMENTS)))) (\<lambda>_.
     bnd (print (''  Total:              ''
                 @ str_int (int (length SCORE_LEADERBOARDS) + int (length ACHIEVEMENTS)))) (\<lambda>_.
     bnd (print (replicate 60 CHR ''='')) (\<lambda>_.
     bnd (print []) (\<lambda>_.
     bnd (print ''Next steps:'') (\<lambda>_.
     bnd (print ''  1. Verify in App Store Connect > Game Center'') (\<lambda>_.
     bnd (print ''  2. Achievement images are optional but recommended'') (\<lambda>_.
     bnd (print ''  3. Create a Game Center release when submitting your app'') (\<lambda>_.
       print ''  4. Test with TestFlight sandbox before going live'')))))))))))"

record setup_args =
  sa_key_id :: string
  sa_issuer_id :: string
  sa_key_file :: string
  sa_app_id :: string
  sa_dry_run :: bool
  sa_leaderboards_only :: bool
  sa_achievements_only :: bool

text \<open>The two listings of the dry run: one line for each leaderboard,
  \<^verbatim>\<open>f"  {lb['vendorIdentifier']:30s}  {lb['referenceName']}"\<close>, and one for each
  achievement.\<close>

definition leaderboard_line :: "leaderboard_config \<Rightarrow> string" where
  "leaderboard_line lb = ''  '' @ ljust 30 (lb_vendorIdentifier lb) @ ''  '' @ lb_referenceName lb"

definition achievement_line :: "achievement_config \<Rightarrow> string" where
  "achievement_line ach =
     ''  '' @ ljust 30 (ach_vendorIdentifier ach) @ ''  '' @ ach_referenceName ach
     @ ''  ('' @ str_int (ach_points ach) @ '' pts)''"

fun list_leaderboards :: "leaderboard_config list \<Rightarrow> ('e, unit) eprog" where
  "list_leaderboards [] = ret ()"
| "list_leaderboards (lb # lbs) =
     bnd (print (leaderboard_line lb)) (\<lambda>_. list_leaderboards lbs)"

fun list_achievements :: "achievement_config list \<Rightarrow> ('e, unit) eprog" where
  "list_achievements [] = ret ()"
| "list_achievements (ach # achs) =
     bnd (print (achievement_line ach)) (\<lambda>_. list_achievements achs)"

definition setup_run :: "env \<Rightarrow> setup_args \<Rightarrow> (abort, unit) eprog" where
  "setup_run env args =
     (if sa_dry_run args then
        bnd (print (''DRY RUN - No API calls will be made'' @ newline)) (\<lambda>_.
        bnd (print ''Leaderboards to create:'') (\<lambda>_.
        bnd (list_leaderboards SCORE_LEADERBOARDS) (\<lambda>_.
        bnd (print (newline @ ''Achievements to create:'')) (\<lambda>_.
        bnd (list_achievements ACHIEVEMENTS) (\<lambda>_.
          print_summary)))))
      else
        bnd (print ''Generating JWT token...'') (\<lambda>_.
        bnd (uncaught (lift (generate_token (env_sign env) (env_fs env) (env_now env)
               (sa_key_id args) (sa_issuer_id args) (sa_key_file args)))) (\<lambda>tok.
        (let token = env_compact env tok in
         bnd (print ''  Token generated.'') (\<lambda>_.
         bnd (get_or_create_gc_detail (env_server env) token (sa_app_id args)) (\<lambda>gc_detail_id.
         bnd (if \<not> sa_achievements_only args
              then uncaught (create_all_leaderboards (env_server env) token gc_detail_id)
              else ret ()) (\<lambda>_.
         bnd (if \<not> sa_leaderboards_only args
              then uncaught (create_all_achievements (env_server env) token gc_detail_id)
              else ret ()) (\<lambda>_.
         bnd print_summary (\<lambda>_.
           print (newline @ ''Done!''))))))))))"

definition setup_main :: "env \<Rightarrow> setup_args parsed \<Rightarrow> (abort, unit) eprog" where
  "setup_main env p = bnd (parse_args p) (setup_run env)"

text \<open>The POST requests to one collection among a list of requests.\<close>

definition posts_to :: "string \<Rightarrow> request list \<Rightarrow> request list" where
  "posts_to path rqs = filter (\<lambda>rq. rq_method rq = ''POST'' \<and> rq_url rq = BASE_URL @ path) rqs"

section \<open>Attaching items to a version (\<^verbatim>\<open>submit_gc_for_review.py\<close>)\<close>

record submit_args =
  sb_key_id :: string
  sb_issuer_id :: string
  sb_key_file :: string
  sb_app_id :: string
  sb_version :: string

text \<open>The start of every \<^verbatim>\<open>main\<close>: the token, between two progress lines.\<close>

definition make_token :: "env \<Rightarrow> string \<Rightarrow> string \<Rightarrow> string \<Rightarrow> string \<Rightarrow> string prog" where
  "make_token env key_id issuer_id key_file done =
     bnd (print ''Generating JWT token...'') (\<lambda>_.
     bnd (lift (generate_token (env_sign env) (env_fs env) (env_now env) key_id issuer_id key_file)) (\<lambda>tok.
     bnd (print done) (\<lambda>_. ret (env_compact env tok))))"

text \<open>Step 1: the Game Center detail, or \<^verbatim>\<open>sys.exit(1)\<close>.\<close>

definition submit_detail :: "server \<Rightarrow> string \<Rightarrow> string \<Rightarrow> (abort, json) eprog" where
  "submit_detail srv token app_id =
     bnd (print ''[1/5] Getting Game Center Detail...'') (\<lambda>_.
     bnd (uncaught (submit_api_get srv token (''/apps/'' @ app_id @ ''/gameCenterDetail'') None)) (\<lambda>gc_result.
     bnd (uncaught (lift (truthy_data gc_result))) (\<lambda>found.
       if \<not> found then
         bnd (print ''  ERROR: No Game Center Detail found'') (\<lambda>_. raise (SystemExit 1))
       else
         bnd (uncaught (lift (thn (py_getitem gc_result ''data'') (\<lambda>d. py_getitem d ''id'')))) (\<lambda>gc_detail_id.
         bnd (print (''  ID: '' @ py_str gc_detail_id @ newline)) (\<lambda>_. ret gc_detail_id)))))"

text \<open>Step 2: all achievements and leaderboards.\<close>

definition submit_fetch ::
  "server \<Rightarrow> string \<Rightarrow> json \<Rightarrow> (exc, json list \<times> json list) nprog" where
  "submit_fetch srv token gc_detail_id =
     nbnd (total (print ''[2/5] Fetching achievements and leaderboards...'')) (\<lambda>_.
     nbnd (submit_api_get_all_pages srv token
             (''/gameCenterDetails/'' @ py_str gc_detail_id @ ''/gameCenterAchievements'')
             (Some [(''limit'', JNum 200)])) (\<lambda>achievements.
     nbnd (submit_api_get_all_pages srv token
             (''/gameCenterDetails/'' @ py_str gc_detail_id @ ''/gameCenterLeaderboards'')
             (Some [(''limit'', JNum 200)])) (\<lambda>leaderboards.
     nbnd (total (print (''  Achievements: '' @ str_int (int (length achievements))))) (\<lambda>_.
     nbnd (total (print (''  Leaderboards: '' @ str_int (int (length leaderboards))))) (\<lambda>_.
     nbnd (total (print (''  Total: '' @ str_int (int (length achievements) + int (length leaderboards))
                         @ newline))) (\<lambda>_.
       total (ret (achievements, leaderboards))))))))"

text \<open>Step 3: the app store version, or \<^verbatim>\<open>sys.exit(1)\<close>.\<close>

definition submit_version :: "server \<Rightarrow> string \<Rightarrow> string \<Rightarrow> string \<Rightarrow> (abort, json) eprog" where
  "submit_version srv token app_id version =
     bnd (print (''[3/5] Finding app store version '' @ version @ ''...'')) (\<lambda>_.
     bnd (uncaught (submit_api_get srv token (''/apps/'' @ app_id @ ''/appStoreVersions'')
            (Some [(''filter[versionString]'', JStr version), (''filter[platform]'', JStr ''IOS'')]))) (\<lambda>versions.
     bnd (uncaught (lift (truthy_data versions))) (\<lambda>found.
       if \<not> found then
         bnd (print (''  ERROR: Version '' @ version @ '' not found'')) (\<lambda>_. raise (SystemExit 1))
       else
         bnd (uncaught (lift (thn (py_getitem versions ''data'') py_getitem0))) (\<lambda>app_store_version.
         bnd (uncaught (lift (py_getitem app_store_version ''id''))) (\<lambda>app_store_version_id.
         bnd (uncaught (lift (thn (py_getitem app_store_version ''attributes'')
                                (\<lambda>a. py_getitem a ''appStoreState'')))) (\<lambda>version_state.
         bnd (print (''  ID: '' @ py_str app_store_version_id)) (\<lambda>_.
         bnd (print (''  State: '' @ py_str version_state @ newline)) (\<lambda>_.
           ret app_store_version_id))))))))"

text \<open>Step 4: enabling Game Center for the version.\<close>

definition submit_enable :: "server \<Rightarrow> string \<Rightarrow> json \<Rightarrow> unit prog" where
  "submit_enable srv token app_store_version_id =
     bnd (print ''[4/5] Enabling Game Center for this app version...'') (\<lambda>_.
     bnd (submit_api_post srv token ''/gameCenterAppVersions''
            (JObj [(''data'', JObj
               [(''type'', JStr ''gameCenterAppVersions''),
                (''relationships'', JObj
                   [(''appStoreVersion'', JObj
                      [(''data'', JObj [(''type'', JStr ''appStoreVersions''),
                                        (''id'', app_store_version_id)])])])])])) (\<lambda>gc_app_version.
       if truthy gc_app_version then
         bnd (lift (thn (py_getitem gc_app_version ''data'') (\<lambda>d. py_getitem d ''id''))) (\<lambda>i.
           print (''  Created gameCenterAppVersion: '' @ py_str i @ newline))
       else
         bnd (submit_api_get srv token
                (''/appStoreVersions/'' @ py_str app_store_version_id @ ''/gameCenterAppVersion'')
                None) (\<lambda>existing.
         bnd (lift (truthy_data existing)) (\<lambda>found.
           if found then
             bnd (lift (thn (py_getitem existing ''data'') (\<lambda>d. py_getitem d ''id''))) (\<lambda>i.
               print (''  Already exists: '' @ py_str i @ newline))
           else print (''  WARNING: Could not create or find gameCenterAppVersion'' @ newline)))))"

text \<open>Step 5: one release request for everything, or else a release for each item.\<close>

fun item_refs :: "string \<Rightarrow> json list \<Rightarrow> exc + json list" where
  "item_refs ty [] = Inr []"
| "item_refs ty (a # as) =
     thn (py_getitem a ''id'') (\<lambda>i.
     thn (item_refs ty as) (\<lambda>rs. Inr (JObj [(''type'', JStr ty), (''id'', i)] # rs)))"

fun releases_loop ::
  "server \<Rightarrow> string \<Rightarrow> json \<Rightarrow> string \<Rightarrow> string \<Rightarrow> string \<Rightarrow> string \<Rightarrow> json list \<Rightarrow> unit prog" where
  "releases_loop srv token gc_detail_id label rel ty releases [] = ret ()"
| "releases_loop srv token gc_detail_id label rel ty releases (item # items) =
     bnd (lift (thn (py_getitem item ''attributes'') (\<lambda>a. py_getitem a ''vendorIdentifier''))) (\<lambda>vid.
     bnd (lift (py_getitem item ''id'')) (\<lambda>item_id.
     bnd (submit_api_post srv token (''/'' @ releases)
            (JObj [(''data'', JObj
               [(''type'', JStr releases),
                (''relationships'', JObj
                   [(''gameCenterDetail'', JObj
                      [(''data'', JObj [(''type'', JStr ''gameCenterDetails''),
                                        (''id'', gc_detail_id)])]),
                    (rel, JObj
                      [(''data'', JObj [(''type'', JStr ty), (''id'', item_id)])])])])])) (\<lambda>result.
     bnd (print (''  '' @ label @ '' ['' @ py_str vid @ '']: ''
                 @ (if truthy result then ''OK'' else ''FAILED''))) (\<lambda>_.
       releases_loop srv token gc_detail_id label rel ty releases items))))"

definition submit_release ::
  "server \<Rightarrow> string \<Rightarrow> json \<Rightarrow> json list \<Rightarrow> json list \<Rightarrow> unit prog" where
  "submit_release srv token gc_detail_id achievements leaderboards =
     bnd (print ''[5/5] Creating Game Center Release...'') (\<lambda>_.
     bnd (lift (item_refs ''gameCenterAchievements'' achievements)) (\<lambda>achievement_refs.
     bnd (lift (item_refs ''gameCenterLeaderboards'' leaderboards)) (\<lambda>leaderboard_refs.
     bnd (submit_api_post srv token ''/gameCenterDetailReleaseRequests''
            (JObj [(''data'', JObj
               [(''type'', JStr ''gameCenterDetailReleaseRequests''),
                (''relationships'', JObj
                   [(''gameCenterDetail'', JObj
                      [(''data'', JObj [(''type'', JStr ''gameCenterDetails''),
                                        (''id'', gc_detail_id)])])])])])) (\<lambda>release.
       if truthy release then
         bnd (lift (thn (py_getitem release ''data'') (\<lambda>d. py_getitem d ''id''))) (\<lambda>i.
           print (''  Created release request: '' @ py_str i))
       else
         bnd (print ''  Trying alternative approach...'') (\<lambda>_.
         bnd (releases_loop srv token gc_detail_id ''Achievement'' ''gameCenterAchievement''
                ''gameCenterAchievements'' ''gameCenterAchievementReleases'' achievements) (\<lambda>_.
           releases_loop srv token gc_detail_id ''Leaderboard'' ''gameCenterLeaderboard''
             ''gameCenterLeaderboards'' ''gameCenterLeaderboardReleases'' leaderboards))))))"

definition submit_run :: "env \<Rightarrow> submit_args \<Rightarrow> (abort, unit) nprog" where
  "submit_run env args =
     nbnd (total (uncaught (make_token env (sb_key_id args) (sb_issuer_id args) (sb_key_file args)
                    (''  OK'' @ newline)))) (\<lambda>token.
     nbnd (total (submit_detail (env_server env) token (sb_app_id args))) (\<lambda>gc_detail_id.
     nbnd (nuncaught (submit_fetch (env_server env) token gc_detail_id)) (\<lambda>fetched.
     (case fetched of (achievements, leaderboards) \<Rightarrow>
     nbnd (total (submit_version (env_server env) token (sb_app_id args) (sb_version args))) (\<lambda>app_store_version_id.
     nbnd (total (uncaught (submit_enable (env_server env) token app_store_version_id))) (\<lambda>_.
     nbnd (total (uncaught (submit_release (env_server env) token gc_detail_id
                    achievements leaderboards))) (\<lambda>_.
     nbnd (total (print (newline @ ''Done! Game Center items are now attached to version ''
                         @ sb_version args))) (\<lambda>_.
       total (print ''Submit the version for review in App Store Connect to include them.'')))))))))"

definition submit_main :: "env \<Rightarrow> submit_args parsed \<Rightarrow> (abort, unit) nprog" where
  "submit_main env p = nbnd (total (parse_args p)) (submit_run env)"

section \<open>Adding versions to the review draft (\<^verbatim>\<open>add_gc_to_review.py\<close>)\<close>

record add_args =
  ad_key_id :: string
  ad_issuer_id :: string
  ad_key_file :: string
  ad_app_id :: string

definition BASE_V1 :: string where
  "BASE_V1 = ''https://api.appstoreconnect.apple.com/v1''"

definition BASE_V2 :: string where
  "BASE_V2 = ''https://api.appstoreconnect.apple.com/v2''"

text \<open>Step 1: the Game Center detail, or \<^verbatim>\<open>sys.exit(1)\<close>.\<close>

definition add_detail :: "server \<Rightarrow> string \<Rightarrow> string \<Rightarrow> (abort, json) eprog" where
  "add_detail srv token app_id =
     bnd (print ''[1/7] Getting Game Center Detail...'') (\<lambda>_.
     bnd (uncaught (add_api_get srv token (BASE_V1 @ ''/apps/'' @ app_id @ ''/gameCenterDetail'') None)) (\<lambda>gc_result.
     bnd (uncaught (lift (truthy_data gc_result))) (\<lambda>found.
       if \<not> found then
         bnd (print ''  ERROR: No Game Center Detail found'') (\<lambda>_. raise (SystemExit 1))
       else
         bnd (uncaught (lift (thn (py_getitem gc_result ''data'') (\<lambda>d. py_getitem d ''id'')))) (\<lambda>gc_detail_id.
         bnd (print (''  ID: '' @ py_str gc_detail_id @ newline)) (\<lambda>_. ret gc_detail_id)))))"

text \<open>Step 2: the review submission that has items, else the first one, or
  \<^verbatim>\<open>sys.exit(1)\<close> when there is none.\<close>

fun find_submission :: "server \<Rightarrow> string \<Rightarrow> json list \<Rightarrow> json prog" where
  "find_submission srv token [] = ret JNull"
| "find_submission srv token (sub # subs) =
     bnd (lift (py_getitem sub ''id'')) (\<lambda>sub_id.
     bnd (add_api_get srv token (BASE_V1 @ ''/reviewSubmissions/'' @ py_str sub_id @ ''/items'') None) (\<lambda>items.
     bnd (lift (truthy_data items)) (\<lambda>has_items.
       if has_items then lift (py_getitem sub ''id'')
       else find_submission srv token subs)))"

definition add_submission :: "server \<Rightarrow> string \<Rightarrow> string \<Rightarrow> (abort, json) eprog" where
  "add_submission srv token app_id =
     bnd (print ''[2/7] Finding review submission draft...'') (\<lambda>_.
     bnd (uncaught (add_api_get srv token (BASE_V1 @ ''/reviewSubmissions'')
            (Some [(''filter[app]'', JStr app_id),
                   (''filter[state]'', JStr ''READY_FOR_REVIEW,WAITING_FOR_REVIEW'')]))) (\<lambda>subs.
     bnd (uncaught (lift (truthy_data subs))) (\<lambda>found.
       if \<not> found then
         bnd (print ''  ERROR: No active review submission found'') (\<lambda>_. raise (SystemExit 1))
       else
         bnd (uncaught (lift (thn (py_getitem subs ''data'') py_iter))) (\<lambda>sub_list.
         bnd (uncaught (find_submission srv token sub_list)) (\<lambda>picked.
         bnd (if \<not> truthy picked
              then uncaught (lift (thn (py_getitem subs ''data'') (\<lambda>d.
                                   thn (py_getitem0 d) (\<lambda>s. py_getitem s ''id''))))
              else ret picked) (\<lambda>review_sub_id.
         bnd (print (''  ID: '' @ py_str review_sub_id @ newline)) (\<lambda>_. ret review_sub_id)))))))"

text \<open>Step 3: all achievements and leaderboards.\<close>

definition add_fetch :: "server \<Rightarrow> string \<Rightarrow> json \<Rightarrow> (exc, json list \<times> json list) nprog" where
  "add_fetch srv token gc_detail_id =
     nbnd (total (print ''[3/7] Fetching achievements and leaderboards...'')) (\<lambda>_.
     nbnd (add_get_all_pages srv token
             (BASE_V1 @ ''/gameCenterDetails/'' @ py_str gc_detail_id @ ''/gameCenterAchievements'')
             (Some [(''limit'', JNum 200)])) (\<lambda>achievements.
     nbnd (add_get_all_pages srv token
             (BASE_V1 @ ''/gameCenterDetails/'' @ py_str gc_detail_id @ ''/gameCenterLeaderboards'')
             (Some [(''limit'', JNum 200)])) (\<lambda>leaderboards.
     nbnd (total (print (''  Achievements: '' @ str_int (int (length achievements))))) (\<lambda>_.
     nbnd (total (print (''  Leaderboards: '' @ str_int (int (length leaderboards)) @ newline))) (\<lambda>_.
       total (ret (achievements, leaderboards)))))))"

text \<open>Steps 4 to 7 treat achievements and leaderboards alike, up to these names.\<close>

record item_kind =
  ki_collection :: string
  ki_releases :: string
  ki_versions :: string
  ki_relation :: string
  ki_version_relation :: string
  ki_noun :: string

definition achievement_kind :: item_kind where
  "achievement_kind =
     \<lparr>ki_collection = ''gameCenterAchievements'',
      ki_releases = ''gameCenterAchievementReleases'',
      ki_versions = ''gameCenterAchievementVersions'',
      ki_relation = ''achievement'',
      ki_version_relation = ''gameCenterAchievementVersion'',
      ki_noun = ''achievement''\<rparr>"

definition leaderboard_kind :: item_kind where
  "leaderboard_kind =
     \<lparr>ki_collection = ''gameCenterLeaderboards'',
      ki_releases = ''gameCenterLeaderboardReleases'',
      ki_versions = ''gameCenterLeaderboardVersions'',
      ki_relation = ''leaderboard'',
      ki_version_relation = ''gameCenterLeaderboardVersion'',
      ki_noun = ''leaderboard''\<rparr>"

text \<open>Steps 4 and 5: deleting the old releases that are not live.  The inner loop runs
  over the releases of one item, the outer one over the items; \<open>deleted\<close> counts the
  DELETE requests.\<close>

fun delete_releases_of ::
  "server \<Rightarrow> string \<Rightarrow> item_kind \<Rightarrow> json \<Rightarrow> json list \<Rightarrow> int \<Rightarrow> int prog" where
  "delete_releases_of srv token kind vid [] deleted = ret deleted"
| "delete_releases_of srv token kind vid (rel # rels) deleted =
     bnd (lift (thn (py_getitem rel ''attributes'') (\<lambda>a. py_get a ''live'' (JBool False)))) (\<lambda>live.
       if \<not> truthy live then
         bnd (lift (py_getitem rel ''id'')) (\<lambda>rel_id.
         bnd (add_api_delete srv token (BASE_V1 @ ''/'' @ ki_releases kind @ ''/'' @ py_str rel_id)) (\<lambda>r.
         bnd (if deleted + 1 \<le> 3 \<or> (deleted + 1) mod 20 = 0
              then print (''  ['' @ py_str vid @ '']: ''
                          @ (if status_code r = 204 then ''OK''
                             else ''ERR '' @ str_int (status_code r)))
              else ret ()) (\<lambda>_.
           delete_releases_of srv token kind vid rels (deleted + 1))))
       else delete_releases_of srv token kind vid rels deleted)"

fun delete_releases_loop ::
  "server \<Rightarrow> string \<Rightarrow> item_kind \<Rightarrow> json list \<Rightarrow> int \<Rightarrow> int prog" where
  "delete_releases_loop srv token kind [] deleted = ret deleted"
| "delete_releases_loop srv token kind (item # items) deleted =
     bnd (lift (py_getitem item ''id'')) (\<lambda>item_id.
     bnd (lift (thn (py_getitem item ''attributes'') (\<lambda>a. py_getitem a ''vendorIdentifier''))) (\<lambda>vid.
     bnd (add_api_get srv token
            (BASE_V1 @ ''/'' @ ki_collection kind @ ''/'' @ py_str item_id @ ''/releases'') None) (\<lambda>releases_resp.
     bnd (if truthy releases_resp then
            bnd (lift (thn (py_get releases_resp ''data'' (JArr [])) py_iter)) (\<lambda>rels.
              delete_releases_of srv token kind vid rels deleted)
          else ret deleted) (\<lambda>deleted1.
       delete_releases_loop srv token kind items deleted1))))"

definition delete_releases :: "server \<Rightarrow> string \<Rightarrow> item_kind \<Rightarrow> string \<Rightarrow> json list \<Rightarrow> int prog" where
  "delete_releases srv token kind step items =
     bnd (print (step @ '' Deleting old-style '' @ ki_noun kind @ '' releases...'')) (\<lambda>_.
     bnd (delete_releases_loop srv token kind items 0) (\<lambda>deleted.
     bnd (print (''  Deleted '' @ str_int deleted @ '' '' @ ki_noun kind @ '' releases'' @ newline)) (\<lambda>_.
       ret deleted)))"

text \<open>Steps 6 and 7: a version for each item, created when there is none, added to the
  review draft; \<open>added\<close> and \<open>errors\<close> count the outcomes.  \<open>None\<close> for the version is the
  \<^verbatim>\<open>continue\<close> after a failed creation.\<close>

definition is_dict :: "post_result \<Rightarrow> bool" where
  "is_dict r = (case r of Decoded (JObj kvs) \<Rightarrow> True | _ \<Rightarrow> False)"

text \<open>The attributes \<^verbatim>\<open>text\<close> and \<^verbatim>\<open>status_code\<close> and the method \<^verbatim>\<open>json()\<close> of what
  \<^verbatim>\<open>api_post\<close> returned: only a response object has them.\<close>

definition result_response :: "post_result \<Rightarrow> exc + response" where
  "result_response r = (case r of Response resp \<Rightarrow> Inr resp | Decoded j \<Rightarrow> Inl AttributeError)"

definition version_of ::
  "server \<Rightarrow> string \<Rightarrow> item_kind \<Rightarrow> json \<Rightarrow> json \<Rightarrow> int \<Rightarrow> (json option \<times> int) prog" where
  "version_of srv token kind item_id vid errors =
     bnd (add_api_get srv token
            (BASE_V2 @ ''/'' @ ki_collection kind @ ''/'' @ py_str item_id @ ''/versions'') None) (\<lambda>ver_resp.
     bnd (lift (truthy_data ver_resp)) (\<lambda>found.
       if \<not> found then
         bnd (add_api_post srv token (BASE_V2 @ ''/'' @ ki_versions kind)
                (JObj [(''data'', JObj
                   [(''type'', JStr (ki_versions kind)),
                    (''relationships'', JObj
                       [(ki_relation kind, JObj
                          [(''data'', JObj [(''type'', JStr (ki_collection kind)),
                                            (''id'', item_id)])])])])])) (\<lambda>cr.
           if is_dict cr then
             bnd (lift (case cr of
                          Decoded j \<Rightarrow> thn (py_getitem j ''data'') (\<lambda>d. py_getitem d ''id'')
                        | Response resp \<Rightarrow> Inl TypeError)) (\<lambda>ver_id.
               ret (Some ver_id, errors))
           else
             bnd (if errors + 1 \<le> 3 then
                    bnd (lift (result_response cr)) (\<lambda>resp.
                      print (''  ['' @ py_str vid @ '']: ERR creating version - ''
                             @ take 200 (resp_text resp)))
                  else ret ()) (\<lambda>_.
               ret (None, errors + 1)))
       else
         bnd (lift (thn (py_getitem ver_resp ''data'') (\<lambda>d.
                    thn (py_getitem0 d) (\<lambda>v. py_getitem v ''id'')))) (\<lambda>ver_id.
           ret (Some ver_id, errors))))"

definition error_detail :: "response \<Rightarrow> exc + json" where
  "error_detail resp =
     thn (json_of resp) (\<lambda>j.
     thn (py_get j ''errors'' (JArr [JObj []])) (\<lambda>es.
     thn (py_getitem0 es) (\<lambda>e.
       py_get e ''detail'' (JStr (take 200 (resp_text resp))))))"

definition add_item ::
  "server \<Rightarrow> string \<Rightarrow> item_kind \<Rightarrow> json \<Rightarrow> json \<Rightarrow> json \<Rightarrow> int \<times> int \<Rightarrow> (int \<times> int) prog" where
  "add_item srv token kind review_sub_id vid ver_id counters =
     (case counters of (added, errors) \<Rightarrow>
      bnd (add_api_post srv token (BASE_V1 @ ''/reviewSubmissionItems'')
             (JObj [(''data'', JObj
                [(''type'', JStr ''reviewSubmissionItems''),
                 (''relationships'', JObj
                    [(''reviewSubmission'', JObj
                       [(''data'', JObj [(''type'', JStr ''reviewSubmissions''),
                                         (''id'', review_sub_id)])]),
                     (ki_version_relation kind, JObj
                       [(''data'', JObj [(''type'', JStr (ki_versions kind)),
                                         (''id'', ver_id)])])])])])) (\<lambda>r.
        if is_dict r then
          bnd (if added + 1 \<le> 3 \<or> (added + 1) mod 10 = 0
               then print (''  ['' @ py_str vid @ '']: OK'') else ret ()) (\<lambda>_.
            ret (added + 1, errors))
        else
          bnd (lift (result_response r)) (\<lambda>resp.
          bnd (lift (error_detail resp)) (\<lambda>err.
          bnd (if errors + 1 \<le> 3
               then print (''  ['' @ py_str vid @ '']: ERR '' @ str_int (status_code resp)
                           @ '' - '' @ py_str err)
               else ret ()) (\<lambda>_.
            ret (added, errors + 1))))))"

fun add_versions_loop ::
  "server \<Rightarrow> string \<Rightarrow> item_kind \<Rightarrow> json \<Rightarrow> json list \<Rightarrow> int \<times> int \<Rightarrow> (int \<times> int) prog" where
  "add_versions_loop srv token kind review_sub_id [] counters = ret counters"
| "add_versions_loop srv token kind review_sub_id (item # items) counters =
     bnd (lift (py_getitem item ''id'')) (\<lambda>item_id.
     bnd (lift (thn (py_getitem item ''attributes'') (\<lambda>a. py_getitem a ''vendorIdentifier''))) (\<lambda>vid.
     bnd (version_of srv token kind item_id vid (snd counters)) (\<lambda>v.
     bnd (case fst v of
            None \<Rightarrow> ret (fst counters, snd v)
          | Some ver_id \<Rightarrow> add_item srv token kind review_sub_id vid ver_id (fst counters, snd v))
       (\<lambda>counters1. add_versions_loop srv token kind review_sub_id items counters1))))"

definition add_versions ::
  "server \<Rightarrow> string \<Rightarrow> item_kind \<Rightarrow> string \<Rightarrow> json \<Rightarrow> json list \<Rightarrow> int prog" where
  "add_versions srv token kind step review_sub_id items =
     bnd (print (step @ '' Adding '' @ ki_noun kind @ '' versions to review draft...'')) (\<lambda>_.
     bnd (add_versions_loop srv token kind review_sub_id items (0, 0)) (\<lambda>counters.
     bnd (print (''  Added: '' @ str_int (fst counters) @ '', Errors: '' @ str_int (snd counters)
                 @ newline)) (\<lambda>_.
       ret (fst counters))))"

definition add_run :: "env \<Rightarrow> add_args \<Rightarrow> (abort, unit) nprog" where
  "add_run env args =
     nbnd (total (uncaught (make_token env (ad_key_id args) (ad_issuer_id args) (ad_key_file args)
                    (''  OK'' @ newline)))) (\<lambda>token.
     nbnd (total (add_detail (env_server env) token (ad_app_id args))) (\<lambda>gc_detail_id.
     nbnd (total (add_submission (env_server env) token (ad_app_id args))) (\<lambda>review_sub_id.
     nbnd (nuncaught (add_fetch (env_server env) token gc_detail_id)) (\<lambda>fetched.
     (case fetched of (achievements, leaderboards) \<Rightarrow>
     total (uncaught (
       bnd (delete_releases (env_server env) token achievement_kind ''[4/7]'' achievements) (\<lambda>deleted_ach.
       bnd (delete_releases (env_server env) token leaderboard_kind ''[5/7]'' leaderboards) (\<lambda>deleted_lb.
       bnd (add_versions (env_server env) token achievement_kind ''[6/7]'' review_sub_id achievements) (\<lambda>added_ach.
       bnd (add_versions (env_server env) token leaderboard_kind ''[7/7]'' review_sub_id leaderboards) (\<lambda>added_lb.
       bnd (print ''=== Summary ==='') (\<lambda>_.
       bnd (print (''Achievement releases deleted: '' @ str_int deleted_ach)) (\<lambda>_.
       bnd (print (''Leaderboard releases deleted: '' @ str_int deleted_lb)) (\<lambda>_.
       bnd (print (''Achievement versions added to draft: '' @ str_int added_ach)) (\<lambda>_.
       bnd (print (''Leaderboard versions added to draft: '' @ str_int added_lb)) (\<lambda>_.
         print (newline @ ''Done! Check App Store Connect to verify Game Center items ''
                @ ''appear in the review submission.'')))))))))))))))))"

definition add_main :: "env \<Rightarrow> add_args parsed \<Rightarrow> (abort, unit) nprog" where
  "add_main env p = nbnd (total (parse_args p)) (add_run env)"

section \<open>How a run can end\<close>



section \<open>Example inputs\<close>

text \<open>A server with two pages of two items each behind \<^verbatim>\<open>/items\<close>, which answers
  every other URL with status 500.\<close>

definition demo_server :: server where
  "demo_server lg rq =
     (if rq_url rq = BASE_URL @ ''/items'' then
        Inr \<lparr>status_code = 200, resp_text = ''page 1'',
             resp_json = Some (JObj [(''data'', JArr [JStr ''a'', JStr ''b'']),
                                     (''links'', JObj [(''next'', JStr ''https://next/2'')])])\<rparr>
      else if rq_url rq = ''https://next/2'' then
        Inr \<lparr>status_code = 200, resp_text = ''page 2'',
             resp_json = Some (JObj [(''data'', JArr [JStr ''c'', JStr ''d'']),
                                     (''links'', JObj [(''self'', JStr ''https://next/2'')])])\<rparr>
      else Inr \<lparr>status_code = 500, resp_text = ''boom'', resp_json = None\<rparr>)"

definition demo_pages :: "(json list \<times> string option) list" where
  "demo_pages =
     [([JStr ''a'', JStr ''b''], Some ''https://next/2''), ([JStr ''c'', JStr ''d''], None)]"

definition world0 :: world where
  "world0 = \<lparr>log = [], out = []\<rparr>"

text \<open>A server that hands out the first page and then fails, and one that answers every
  request with the same response.\<close>

definition flaky_server :: server where
  "flaky_server lg rq =
     (if rq_url rq = BASE_URL @ ''/items'' then
        Inr \<lparr>status_code = 200, resp_text = ''page 1'',
             resp_json = Some (JObj [(''data'', JArr [JStr ''a'', JStr ''b'']),
                                     (''links'', JObj [(''next'', JStr ''https://next/2'')])])\<rparr>
      else Inr \<lparr>status_code = 503, resp_text = ''unavailable'', resp_json = None\<rparr>)"

definition const_server :: "response \<Rightarrow> server" where
  "const_server resp lg rq = Inr resp"

definition rejecting :: response where
  "rejecting = \<lparr>status_code = 500, resp_text = ''boom'', resp_json = None\<rparr>"



text \<open>A server on which no localization has an image.\<close>

definition no_image_server :: server where
  "no_image_server lg rq =
     Inr \<lparr>status_code = 200, resp_text = ''no image'',
          resp_json = Some (JObj [(''data'', JNull)])\<rparr>"

text \<open>A seven-byte image, a reservation that splits it into two ranges, and a server
  that holds an old image which it refuses to delete while it accepts everything else.\<close>

definition demo_fs :: filesystem where
  "demo_fs =
     \<lparr>files = (\<lambda>p. if p = ''/img/level_1_complete.png'' then Some ''PNGDATA'' else None),
      dirs = (\<lambda>p. None)\<rparr>"

definition demo_ops :: "json list" where
  "demo_ops =
     [JObj [(''method'', JStr ''PUT''), (''url'', JStr ''https://store/part2''),
            (''requestHeaders'', JArr [JObj [(''name'', JStr ''Content-Type''),
                                             (''value'', JStr ''image/png'')]]),
            (''offset'', JNum 4), (''length'', JNum 3)],
      JObj [(''method'', JStr ''PUT''), (''url'', JStr ''https://store/part1''),
            (''requestHeaders'', JArr [JObj [(''name'', JStr ''Content-Type''),
                                             (''value'', JStr ''image/png'')]]),
            (''length'', JNum 4)]]"

definition stubborn_server :: server where
  "stubborn_server lg rq =
     (if rq_method rq = ''GET'' then
        Inr \<lparr>status_code = 200, resp_text = ''old image'',
             resp_json = Some (JObj [(''data'', JObj [(''id'', JStr ''old'')])])\<rparr>
      else if rq_method rq = ''DELETE'' then
        Inr \<lparr>status_code = 409, resp_text = ''conflict'', resp_json = None\<rparr>
      else if rq_method rq = ''POST'' then
        Inr \<lparr>status_code = 201, resp_text = ''reserved'',
             resp_json = Some (JObj [(''data'', JObj
               [(''id'', JStr ''new''),
                (''attributes'', JObj [(''uploadOperations'', JArr demo_ops)])])])\<rparr>
      else if rq_method rq = ''PUT'' then
        Inr \<lparr>status_code = 200, resp_text = ''stored'', resp_json = None\<rparr>
      else
        Inr \<lparr>status_code = 200, resp_text = ''committed'',
             resp_json = Some (JObj [(''data'', JObj [(''attributes'', JObj
               [(''assetDeliveryState'', JObj [(''state'', JStr ''COMPLETE'')])])])])\<rparr>)"






section \<open>Basic lemmas\<close>

lemma bnd_simps [simp]:
  "bnd (ret v) f w = f v w"
  "bnd (raise e) f w = (Inl e, w)"
  "bnd (lift (Inr v)) f w = f v w"
  "bnd (lift (Inl e)) f w = (Inl e, w)"
  by (simp_all add: bnd_def ret_def raise_def lift_def)

lemma bnd_print [simp]:
  "bnd (print s) f w = f () (w\<lparr>out := out w @ s @ newline\<rparr>)"
  "bnd (print_end s e) f w = f () (w\<lparr>out := out w @ s @ e\<rparr>)"
  by (simp_all add: bnd_def print_def print_end_def)

lemma bnd_request [simp]:
  "bnd (requests_request srv rq) f w =
     (case srv (log w) rq of
        Inl e \<Rightarrow> (Inl e, w\<lparr>log := log w @ [rq]\<rparr>)
      | Inr resp \<Rightarrow> f resp (w\<lparr>log := log w @ [rq]\<rparr>))"
  by (simp add: bnd_def requests_request_def split: sum.splits)



lemma print_apply [simp]:
  "print s w = (Inr (), w\<lparr>out := out w @ s @ newline\<rparr>)"
  "print_end s e w = (Inr (), w\<lparr>out := out w @ s @ e\<rparr>)"
  by (simp_all add: print_def print_end_def)

lemma bnd_assoc [simp]: "bnd (bnd m g) f = bnd m (\<lambda>x. bnd (g x) f)"
  by (auto simp: bnd_def fun_eq_iff split: prod.splits sum.splits)

lemma bnd_Inr_iff:
  "bnd m f w = (Inr v, w') \<longleftrightarrow> (\<exists>x w1. m w = (Inr x, w1) \<and> f x w1 = (Inr v, w'))"
  by (auto simp: bnd_def split: prod.splits sum.splits)

lemma is_page_status: "is_page resp items nxt \<Longrightarrow> status_code resp = 200"
  by (simp add: is_page_def)




lemma is_page_body:
  assumes "is_page resp items nxt"
  shows "\<exists>kvs. resp_json resp = Some (JObj kvs) \<and> map_of kvs ''data'' = Some (JArr items)"
proof (cases "resp_json resp")
  case None
  with assms show ?thesis by (simp add: is_page_def)
next
  case (Some j)
  with assms show ?thesis
    by (cases j) (simp_all add: is_page_def)
qed

lemma is_page_next:
  assumes "is_page resp items nxt" and "resp_json resp = Some (JObj kvs)"
  shows "\<exists>links. py_get (JObj kvs) ''links'' (JObj []) = Inr links
          \<and> py_get links ''next'' JNull = Inr (case nxt of None \<Rightarrow> JNull | Some u \<Rightarrow> JStr u)
          \<and> (case nxt of None \<Rightarrow> True | Some u \<Rightarrow> u \<noteq> [])"
proof -
  from assms have l: "case map_of kvs ''links'' of
              None \<Rightarrow> nxt = None
            | Some (JObj ls) \<Rightarrow>
                (case map_of ls ''next'' of
                   None \<Rightarrow> nxt = None
                 | Some (JStr u) \<Rightarrow> nxt = Some u \<and> u \<noteq> []
                 | Some _ \<Rightarrow> False)
            | Some _ \<Rightarrow> False"
    by (simp add: is_page_def)
  show ?thesis
  proof (cases "map_of kvs ''links''")
    case None
    with l show ?thesis by simp
  next
    case (Some lk)
    show ?thesis
    proof (cases lk)
      case (JObj ls)
      show ?thesis
      proof (cases "map_of ls ''next''")
        case None
        with l Some JObj show ?thesis by simp
      next
        case (Some n)
        with l \<open>map_of kvs ''links'' = Some lk\<close> JObj show ?thesis
          by (cases n) simp_all
      qed
    qed (use l Some in simp_all)
  qed
qed



lemma is_page_link: "is_page resp items (Some u) \<Longrightarrow> u \<noteq> []"
  using is_page_body [of resp items "Some u"] is_page_next [of resp items "Some u"] by fastforce

lemma page_iteration_page:
  assumes "srv (log w) (get_request url (api_headers token) params) = Inr resp"
    and "is_page resp items nxt"
  shows "page_iteration srv token label lim (JStr url) params all_data w =
     (Inr (all_data @ items, Some (case nxt of None \<Rightarrow> JNull | Some u \<Rightarrow> JStr u)),
      w\<lparr>log := log w @ [get_request url (api_headers token) params]\<rparr>)"
proof -
  from is_page_body [OF assms(2)] obtain kvs where
    k: "resp_json resp = Some (JObj kvs)" and d: "map_of kvs ''data'' = Some (JArr items)"
    by blast
  from is_page_next [OF assms(2) k] obtain links where
    l: "py_get (JObj kvs) ''links'' (JObj []) = Inr links"
    and n: "py_get links ''next'' JNull = Inr (case nxt of None \<Rightarrow> JNull | Some u \<Rightarrow> JStr u)"
    by blast
  have j: "json_of resp = Inr (JObj kvs)" using k by (simp add: json_of_def)
  have g: "py_get (JObj kvs) ''data'' (JArr []) = Inr (JArr items)" using d by simp
  show ?thesis
    unfolding page_iteration_def requests_get_def
    by (simp add: assms(1) is_page_status [OF assms(2)] j g l n ret_def del: py_get.simps)
qed

lemma page_iteration_error:
  assumes "srv (log w) (get_request url (api_headers token) params) = Inr bad"
    and "status_code bad \<noteq> 200"
  shows "page_iteration srv token label lim (JStr url) params all_data w =
     (Inr (all_data, None),
      w\<lparr>log := log w @ [get_request url (api_headers token) params],
        out := out w @ diagnostic label lim bad @ newline\<rparr>)"
  unfolding page_iteration_def requests_get_def
  by (simp add: assms ret_def)

lemma pages_loop_serves:
  assumes "serves srv token (log w) url params pages" and "url \<noteq> []"
  shows "pages_loop srv token label lim (JStr url) params all_data w =
     Some (Inr (all_data @ concat (map fst pages)),
           w\<lparr>log := log w @ page_requests token url params pages\<rparr>)"
  using assms
proof (induction pages arbitrary: url params all_data w)
  case Nil
  then show ?case by simp
next
  case (Cons p ps)
  obtain items nxt where p: "p = (items, nxt)" by (cases p)
  from Cons.prems p obtain resp where
    resp: "srv (log w) (get_request url (api_headers token) params) = Inr resp"
    and page: "is_page resp items nxt"
    and rest: "case nxt of None \<Rightarrow> ps = []
           | Some u \<Rightarrow> ps \<noteq> [] \<and>
               serves srv token (log w @ [get_request url (api_headers token) params]) u None ps"
    by (auto split: sum.splits)
  note step = page_iteration_page [where srv=srv and w=w and label=label and lim=lim and all_data=all_data, OF resp page]
  show ?case
  proof (cases nxt)
    case None
    with rest have "ps = []" by simp
    with None p step Cons.prems(2) show ?thesis
      by (subst pages_loop.simps) (simp add: pages_loop.simps [of _ _ _ _ JNull])
  next
    case (Some u)
    with rest have ps: "serves srv token (log (w\<lparr>log := log w @ [get_request url (api_headers token) params]\<rparr>)) u None ps"
      by simp
    from page Some have u: "u \<noteq> []"
      by (auto dest: is_page_link)
    from Cons.IH [OF ps u] Some p step Cons.prems(2) show ?thesis
      by (subst pages_loop.simps) simp
  qed
qed

lemma pages_loop_serves_until:
  assumes "serves_until srv token (log w) url params pages bad" and "url \<noteq> []"
  shows "pages_loop srv token label lim (JStr url) params all_data w =
     Some (Inr (all_data @ concat (map fst pages)),
           w\<lparr>log := log w @ requests_until token url params pages,
             out := out w @ diagnostic label lim bad @ newline\<rparr>)"
  using assms
proof (induction pages arbitrary: url params all_data w)
  case Nil
  then have "srv (log w) (get_request url (api_headers token) params) = Inr bad"
    and "status_code bad \<noteq> 200" by simp_all
  from page_iteration_error [where srv=srv and w=w and label=label and lim=lim and all_data=all_data, OF this] Nil.prems(2) show ?case
    by (subst pages_loop.simps) simp
next
  case (Cons p ps)
  obtain items u where p: "p = (items, u)" by (cases p)
  from Cons.prems p obtain resp where
    resp: "srv (log w) (get_request url (api_headers token) params) = Inr resp"
    and page: "is_page resp items (Some u)"
    and rest: "serves_until srv token (log w @ [get_request url (api_headers token) params]) u None ps bad"
    by (auto split: sum.splits)
  note step = page_iteration_page [where srv=srv and w=w and label=label and lim=lim and all_data=all_data, OF resp page]
  from rest have ps: "serves_until srv token (log (w\<lparr>log := log w @ [get_request url (api_headers token) params]\<rparr>)) u None ps bad"
    by simp
  from page have u: "u \<noteq> []"
    by (rule is_page_link)
  from Cons.IH [OF ps u] p step Cons.prems(2) show ?case
    by (subst pages_loop.simps) simp
qed

section \<open>Properties of the token issuer\<close>

lemma timegm_plus_seconds: "timegm (t + s * 1000000) = timegm t + s"
  by (simp add: timegm_def)

lemma generate_token_total:
  assumes "files fs key_file = Some k"
    and "datetime_min \<le> now" and "now + 1200000000 \<le> datetime_max"
    and "sign k ([(''alg'', ''ES256''), (''kid'', key_id), (''typ'', ''JWT'')],
           \<lparr>claim_iss = issuer_id, claim_iat = timegm now,
            claim_exp = timegm (now + 1200000000), claim_aud = ''appstoreconnect-v1''\<rparr>) = Some s"
  shows "\<exists>tok. generate_token sign fs now key_id issuer_id key_file = Inr tok"
  using assms
  by (simp add: generate_token_def datetime_add_def timedelta_minutes_def jwt_encode_def Let_def)

text \<open>
  Claim C5.  Every token that \<^verbatim>\<open>generate_token\<close> produces expires exactly 20 minutes
  (1200 seconds) after its issue time, and the issue time is the generation time in whole
  seconds: the validity window does not depend on when the token is generated.
\<close>

theorem generate_token_window:
  assumes "generate_token sign fs now key_id issuer_id key_file = Inr tok"
  shows "claim_exp (jwt_claims tok) - claim_iat (jwt_claims tok) = 20 * 60
       \<and> claim_iat (jwt_claims tok) = timegm now"
proof -
  from assms obtain k later where k: "files fs key_file = Some k"
    and later: "datetime_add now (timedelta_minutes 20) = Inr later"
    and enc: "jwt_encode sign
                 \<lparr>iss = issuer_id, iat = now, exp = later, aud = ''appstoreconnect-v1''\<rparr> k
                 [(''alg'', ''ES256''), (''kid'', key_id), (''typ'', ''JWT'')] = Inr tok"
    by (auto simp: generate_token_def split: option.splits sum.splits)
  from later have l: "later = now + 1200 * 1000000"
    by (auto simp: datetime_add_def timedelta_minutes_def Let_def split: if_splits)
  from enc have c: "claim_iat (jwt_claims tok) = timegm now"
      "claim_exp (jwt_claims tok) = timegm later"
    by (auto simp: jwt_encode_def Let_def split: option.splits)
  show ?thesis
    unfolding c l timegm_plus_seconds by simp
qed

theorem generate_token_window_witness:
  "generate_token (\<lambda>k u. Some ''sig'')
       \<lparr>files = (\<lambda>p. if p = ''AuthKey.p8'' then Some ''PRIVATE KEY'' else None),
        dirs = (\<lambda>p. None)\<rparr>
       1762257600123456 ''KID'' ''ISSUER'' ''AuthKey.p8''
     = Inr \<lparr>jwt_header = [(''alg'', ''ES256''), (''kid'', ''KID''), (''typ'', ''JWT'')],
            jwt_claims = \<lparr>claim_iss = ''ISSUER'', claim_iat = 1762257600,
                          claim_exp = 1762258800, claim_aud = ''appstoreconnect-v1''\<rparr>,
            jwt_signature = ''sig''\<rparr>
   \<and> (1762258800::int) - 1762257600 = 20 * 60"
proof -
  have g: "generate_token (\<lambda>k u. Some ''sig'')
       \<lparr>files = (\<lambda>p. if p = ''AuthKey.p8'' then Some ''PRIVATE KEY'' else None),
        dirs = (\<lambda>p. None)\<rparr>
       1762257600123456 ''KID'' ''ISSUER'' ''AuthKey.p8''
     = Inr \<lparr>jwt_header = [(''alg'', ''ES256''), (''kid'', ''KID''), (''typ'', ''JWT'')],
            jwt_claims = \<lparr>claim_iss = ''ISSUER'', claim_iat = 1762257600,
                          claim_exp = 1762258800, claim_aud = ''appstoreconnect-v1''\<rparr>,
            jwt_signature = ''sig''\<rparr>"
    by (simp add: generate_token_def datetime_add_def timedelta_minutes_def jwt_encode_def
        timegm_def datetime_min_def datetime_max_def Let_def)
  from generate_token_window [OF g] show ?thesis using g by simp
qed

section \<open>Properties of the paginated fetcher\<close>

text \<open>
  Claim C1.  When the server hands out a sequence of pages, each carrying a list of items
  and every one but the last a next link, the fetcher returns the items of all the pages
  concatenated in page order, having requested the first URL with the caller's parameters
  and then each next link; with \<open>N\<close> pages of \<open>K\<close> items each that is \<open>N * K\<close> items.
  This holds for \<^verbatim>\<open>get_all_pages\<close> of \<^verbatim>\<open>add_gc_to_review.py\<close> and for
  \<^verbatim>\<open>api_get_all_pages\<close> of \<^verbatim>\<open>upload_gc_images.py\<close> and \<^verbatim>\<open>submit_gc_for_review.py\<close>.
\<close>

theorem paginated_fetch_concatenates:
  assumes "serves srv token (log w) url params pages" and "url \<noteq> []"
  shows "add_get_all_pages srv token url params w =
           Some (Inr (concat (map fst pages)),
                 w\<lparr>log := log w @ page_requests token url params pages\<rparr>)
       \<and> (url = BASE_URL @ path \<longrightarrow>
            upload_api_get_all_pages srv token path params w =
              Some (Inr (concat (map fst pages)),
                    w\<lparr>log := log w @ page_requests token url params pages\<rparr>)
          \<and> submit_api_get_all_pages srv token path params w =
              Some (Inr (concat (map fst pages)),
                    w\<lparr>log := log w @ page_requests token url params pages\<rparr>))
       \<and> ((\<forall>p \<in> set pages. length (fst p) = K) \<longrightarrow>
            length (concat (map fst pages)) = length pages * K)"
proof -
  have n: "(\<forall>p \<in> set pages. length (fst p) = K) \<longrightarrow>
      length (concat (map fst pages)) = length pages * K"
    by (induction pages) auto
  have l: "pages_loop srv token label lim (JStr url) params [] w =
      Some (Inr (concat (map fst pages)),
            w\<lparr>log := log w @ page_requests token url params pages\<rparr>)" for label lim
    using pages_loop_serves [OF assms, of label lim "[]"] by simp
  show ?thesis
    unfolding add_get_all_pages_def upload_api_get_all_pages_def submit_api_get_all_pages_def
    using l n by blast
qed

lemma demo_serves:
  "serves demo_server ''tok'' (log world0) (BASE_URL @ ''/items'') (Some [(''limit'', JNum 200)]) demo_pages"
  by (simp add: demo_server_def demo_pages_def world0_def is_page_def get_request_def BASE_URL_def)

theorem paginated_fetch_concatenates_witness:
  "upload_api_get_all_pages demo_server ''tok'' ''/items'' (Some [(''limit'', JNum 200)]) world0 =
     Some (Inr [JStr ''a'', JStr ''b'', JStr ''c'', JStr ''d''],
           \<lparr>log = [get_request (BASE_URL @ ''/items'') (api_headers ''tok'') (Some [(''limit'', JNum 200)]),
                   get_request ''https://next/2'' (api_headers ''tok'') None],
            out = []\<rparr>)
   \<and> length [JStr ''a'', JStr ''b'', JStr ''c'', JStr ''d''] = length demo_pages * 2"
proof -
  have u: "BASE_URL @ ''/items'' \<noteq> []" by (simp add: BASE_URL_def)
  from paginated_fetch_concatenates [OF demo_serves u, of "''/items''" 2]
  show ?thesis
    by (simp add: demo_pages_def world0_def)
qed

text \<open>
  Claim C4.  When the server answers some page request with a status other than 200,
  after any number of pages served, the fetcher prints one diagnostic, issues no further
  request, and returns the items of the pages fetched so far (none, when the first
  request fails) as an ordinary list: the result is a value, not an exception.
\<close>

theorem paginated_fetch_stops_on_error:
  assumes "serves_until srv token (log w) url params pages bad" and "url \<noteq> []"
  shows "add_get_all_pages srv token url params w =
           Some (Inr (concat (map fst pages)),
                 w\<lparr>log := log w @ requests_until token url params pages,
                   out := out w @ diagnostic ''  GET ERROR '' 300 bad @ newline\<rparr>)
       \<and> (url = BASE_URL @ path \<longrightarrow>
            upload_api_get_all_pages srv token path params w =
              Some (Inr (concat (map fst pages)),
                    w\<lparr>log := log w @ requests_until token url params pages,
                      out := out w @ diagnostic ''    GET ERROR '' 500 bad @ newline\<rparr>)
          \<and> submit_api_get_all_pages srv token path params w =
              Some (Inr (concat (map fst pages)),
                    w\<lparr>log := log w @ requests_until token url params pages,
                      out := out w @ diagnostic ''  GET ERROR '' 500 bad @ newline\<rparr>))"
proof -
  have l: "pages_loop srv token label lim (JStr url) params [] w =
      Some (Inr (concat (map fst pages)),
            w\<lparr>log := log w @ requests_until token url params pages,
              out := out w @ diagnostic label lim bad @ newline\<rparr>)" for label lim
    using pages_loop_serves_until [OF assms, of label lim "[]"] by simp
  show ?thesis
    unfolding add_get_all_pages_def upload_api_get_all_pages_def submit_api_get_all_pages_def
    using l by blast
qed

lemma str_int_503: "str_int 503 = ''503''"
  by (simp add: str_int_def)

lemma flaky_serves_until:
  "serves_until flaky_server ''tok'' (log world0) (BASE_URL @ ''/items'') None
     [([JStr ''a'', JStr ''b''], ''https://next/2'')]
     \<lparr>status_code = 503, resp_text = ''unavailable'', resp_json = None\<rparr>"
  by (simp add: flaky_server_def world0_def is_page_def get_request_def BASE_URL_def)

theorem paginated_fetch_stops_on_error_witness:
  "upload_api_get_all_pages flaky_server ''tok'' ''/items'' None world0 =
     Some (Inr [JStr ''a'', JStr ''b''],
           \<lparr>log = [get_request (BASE_URL @ ''/items'') (api_headers ''tok'') None,
                   get_request ''https://next/2'' (api_headers ''tok'') None],
            out = ''    GET ERROR 503: unavailable'' @ newline\<rparr>)"
proof -
  have u: "BASE_URL @ ''/items'' \<noteq> []" by (simp add: BASE_URL_def)
  from paginated_fetch_stops_on_error [OF flaky_serves_until u, of "''/items''"]
  show ?thesis
    by (simp add: world0_def diagnostic_def str_int_503)
qed

section \<open>Properties of the HTTP wrappers\<close>

lemma thn_simps [simp]:
  "thn (Inr v) f = f v"
  "thn (Inl e) f = Inl e"
  by (simp_all add: thn_def)

lemma lift_apply: "lift r w = (r, w)"
  by (simp add: lift_def)

lemma ret_apply: "ret v w = (Inr v, w)"
  by (simp add: ret_def)

lemma bnd_eq: "m w = (Inr v, w1) \<Longrightarrow> bnd m f w = f v w1"
  by (simp add: bnd_def)

lemma bnd_eq_raise: "m w = (Inl e, w1) \<Longrightarrow> bnd m f w = (Inl e, w1)"
  by (simp add: bnd_def)

lemma bnd_lift:
  "bnd (lift r) f w = (case r of Inl e \<Rightarrow> (Inl e, w) | Inr v \<Rightarrow> f v w)"
  by (simp add: bnd_def lift_def split: sum.splits)




lemma upload_api_get_status:
  assumes "srv (log w) (get_request (BASE_URL @ path) (api_headers token) params) = Inr resp"
  shows "upload_api_get srv token path params w =
     (if status_code resp = 200
      then (json_of resp, w\<lparr>log := log w @ [get_request (BASE_URL @ path) (api_headers token) params]\<rparr>)
      else (Inr JNull,
            w\<lparr>log := log w @ [get_request (BASE_URL @ path) (api_headers token) params],
              out := out w @ diagnostic ''    GET ERROR '' 500 resp @ newline\<rparr>))"
  by (simp add: upload_api_get_def requests_get_def requests_post_def requests_patch_def
      requests_delete_def assms ret_def lift_def)


lemma setup_api_get_status:
  assumes "srv (log w) (get_request (BASE_URL @ path) (api_headers token) None) = Inr resp"
  shows "setup_api_get srv token path w =
     (if status_code resp = 200
      then (json_of resp, w\<lparr>log := log w @ [get_request (BASE_URL @ path) (api_headers token) None]\<rparr>)
      else (Inr JNull,
            w\<lparr>log := log w @ [get_request (BASE_URL @ path) (api_headers token) None],
              out := out w @ diagnostic ''  ERROR '' 500 resp @ newline\<rparr>))"
  by (simp add: setup_api_get_def requests_get_def requests_post_def requests_patch_def
      requests_delete_def assms ret_def lift_def)


lemma submit_api_get_status:
  assumes "srv (log w) (get_request (BASE_URL @ path) (api_headers token) params) = Inr resp"
  shows "submit_api_get srv token path params w =
     (if status_code resp = 200
      then (json_of resp, w\<lparr>log := log w @ [get_request (BASE_URL @ path) (api_headers token) params]\<rparr>)
      else (Inr JNull,
            w\<lparr>log := log w @ [get_request (BASE_URL @ path) (api_headers token) params],
              out := out w @ diagnostic ''  GET ERROR '' 500 resp @ newline\<rparr>))"
  by (simp add: submit_api_get_def requests_get_def requests_post_def requests_patch_def
      requests_delete_def assms ret_def lift_def)

lemma add_api_get_status:
  assumes "srv (log w) (get_request url (api_headers token) params) = Inr resp"
  shows "add_api_get srv token url params w =
     (if status_code resp = 200
      then (json_of resp, w\<lparr>log := log w @ [get_request url (api_headers token) params]\<rparr>)
      else (Inr JNull,
            w\<lparr>log := log w @ [get_request url (api_headers token) params],
              out := out w @ diagnostic ''  GET ERROR '' 500 resp @ newline\<rparr>))"
  by (simp add: add_api_get_def requests_get_def requests_post_def requests_patch_def
      requests_delete_def assms ret_def lift_def)






section \<open>Properties of the image upload\<close>

lemma truthy_data_no_data: "no_data j \<Longrightarrow> truthy_data j = Inr False"
  by (cases j) (auto simp: truthy_data_def split: option.splits)

text \<open>
  Claim C7.  When the GET of the localization's image relationship finds no image (it
  fails, or it succeeds with an empty body or without \<^verbatim>\<open>data\<close>),
  \<^verbatim>\<open>delete_existing_image\<close> returns \<^verbatim>\<open>True\<close> and the GET is the only request it has
  issued: no DELETE is sent.
\<close>

theorem delete_without_image_is_noop:
  assumes "srv (log w)
             (get_request
                (BASE_URL @ ''/'' @ localization_type @ ''s/'' @ py_str localization_id @ ''/''
                   @ rstrip ''s'' resource_type)
                (api_headers token) None) = Inr resp"
    and "no_existing_image resp"
  shows "delete_existing_image srv token resource_type localization_type localization_id w =
     (Inr True,
      w\<lparr>log := log w @
           [get_request
              (BASE_URL @ ''/'' @ localization_type @ ''s/'' @ py_str localization_id @ ''/''
                 @ rstrip ''s'' resource_type)
              (api_headers token) None],
        out := out w @
           (if status_code resp = 200 then []
            else diagnostic ''    GET ERROR '' 500 resp @ newline)\<rparr>)"
proof (cases "status_code resp = 200")
  case True
  with assms(2) obtain j where j: "resp_json resp = Some j" and n: "no_data j"
    by (auto simp: no_existing_image_def split: option.splits)
  have g: "upload_api_get srv token (''/'' @ localization_type @ ''s/'' @ py_str localization_id @ ''/''
                   @ rstrip ''s'' resource_type) None w =
      (Inr j, w\<lparr>log := log w @
           [get_request
              (BASE_URL @ ''/'' @ localization_type @ ''s/'' @ py_str localization_id @ ''/''
                 @ rstrip ''s'' resource_type)
              (api_headers token) None]\<rparr>)"
    using upload_api_get_status [where srv=srv and w=w, OF assms(1)] True j
    by (simp add: json_of_def)
  show ?thesis
    using g unfolding delete_existing_image_def Let_def
    by (simp add: bnd_def lift_apply ret_apply truthy_data_no_data [OF n] True)
next
  case False
  have g: "upload_api_get srv token (''/'' @ localization_type @ ''s/'' @ py_str localization_id @ ''/''
                   @ rstrip ''s'' resource_type) None w =
      (Inr JNull, w\<lparr>log := log w @
           [get_request
              (BASE_URL @ ''/'' @ localization_type @ ''s/'' @ py_str localization_id @ ''/''
                 @ rstrip ''s'' resource_type)
              (api_headers token) None],
           out := out w @ diagnostic ''    GET ERROR '' 500 resp @ newline\<rparr>)"
    using upload_api_get_status [where srv=srv and w=w, OF assms(1)] False
    by simp
  show ?thesis
    using g unfolding delete_existing_image_def Let_def
    by (simp add: bnd_def lift_apply ret_apply truthy_data_def False)
qed

theorem delete_without_image_is_noop_witness:
  "delete_existing_image no_image_server ''tok'' ''gameCenterAchievementImages''
     ''gameCenterAchievementLocalization'' (JStr ''L1'') world0 =
   (Inr True,
    \<lparr>log = [get_request
              (BASE_URL @ ''/gameCenterAchievementLocalizations/L1/gameCenterAchievementImage'')
              (api_headers ''tok'') None],
     out = []\<rparr>)"
proof -
  have a: "no_image_server (log world0)
             (get_request
                (BASE_URL @ ''/'' @ ''gameCenterAchievementLocalization'' @ ''s/'' @ py_str (JStr ''L1'') @ ''/''
                   @ rstrip ''s'' ''gameCenterAchievementImages'')
                (api_headers ''tok'') None) =
      Inr \<lparr>status_code = 200, resp_text = ''no image'',
          resp_json = Some (JObj [(''data'', JNull)])\<rparr>"
    by (simp add: no_image_server_def)
  have b: "no_existing_image \<lparr>status_code = 200, resp_text = ''no image'',
          resp_json = Some (JObj [(''data'', JNull)])\<rparr>"
    by (simp add: no_existing_image_def)
  from delete_without_image_is_noop [where srv=no_image_server and w=world0, OF a b] show ?thesis
    by (simp add: world0_def rstrip_def)
qed

lemma growsI: "(\<And>w. \<exists>more. log (snd (m w)) = log w @ more) \<Longrightarrow> grows m"
  by (simp add: grows_def)

lemma growsD: "grows m \<Longrightarrow> \<exists>more. log (snd (m w)) = log w @ more"
  by (simp add: grows_def)

lemma grows_basic [intro!, simp]:
  "grows (ret v)" "grows (raise e)" "grows (lift r)" "grows (print s)" "grows (print_end s t)"
  "grows (requests_request srv rq)"
  by (simp_all add: grows_def ret_def raise_def lift_def print_def print_end_def
      requests_request_def)

lemma grows_bnd [intro!]:
  assumes "grows m" and "\<And>v. grows (f v)"
  shows "grows (bnd m f)"
proof (rule growsI)
  fix w
  obtain r w1 where m: "m w = (r, w1)" by (cases "m w")
  from growsD [OF assms(1), of w] m obtain l1 where l1: "log w1 = log w @ l1" by auto
  show "\<exists>more. log (snd (bnd m f w)) = log w @ more"
  proof (cases r)
    case (Inl e)
    with m l1 show ?thesis by (simp add: bnd_def)
  next
    case (Inr v)
    from growsD [OF assms(2), of v w1] obtain l2 where
      "log (snd (f v w1)) = log w1 @ l2" by auto
    with Inr m l1 show ?thesis by (simp add: bnd_def)
  qed
qed

lemma grows_if [intro!]: "grows a \<Longrightarrow> grows b \<Longrightarrow> grows (if c then a else b)"
  by simp

lemma grows_wrappers [intro!, simp]:
  "grows (upload_api_get srv token path params)"
  "grows (upload_api_post srv token path data)"
  "grows (upload_api_patch srv token path data)"
  "grows (upload_api_delete srv token path)"
  unfolding upload_api_get_def upload_api_post_def upload_api_patch_def upload_api_delete_def
    requests_get_def requests_post_def requests_patch_def requests_delete_def
  by auto

lemma grows_upload_ops_loop [intro!, simp]: "grows (upload_ops_loop srv file_data ops)"
  by (induction ops) auto

lemma grows_upload_image_data [intro!, simp]:
  "grows (upload_image_data srv fs upload_operations file_path)"
  unfolding upload_image_data_def by auto


lemma bnd_log_after:
  assumes "\<And>w. log (snd (m w)) = log w @ l" and "\<And>v. grows (f v)"
  shows "\<exists>more. log (snd (bnd m f w)) = log w @ l @ more"
proof -
  obtain r w1 where m: "m w = (r, w1)" by (cases "m w")
  with assms(1) [of w] have l: "log w1 = log w @ l" by simp
  show ?thesis
  proof (cases r)
    case (Inl e)
    with m l show ?thesis by (simp add: bnd_def)
  next
    case (Inr v)
    from growsD [OF assms(2), of v w1] obtain l2 where
      "log (snd (f v w1)) = log w1 @ l2" by auto
    with Inr m l show ?thesis by (simp add: bnd_def)
  qed
qed

lemma upload_api_post_log:
  "log (snd (upload_api_post srv token path data w)) =
     log w @ [post_request (BASE_URL @ path) (api_headers token) data]"
  by (cases "srv (log w) (post_request (BASE_URL @ path) (api_headers token) data)")
     (simp_all add: upload_api_post_def requests_post_def lift_apply ret_apply)

lemma reserve_upload_commit_starts_with_reservation:
  assumes "files fs image_path = Some d"
  shows "\<exists>more. log (snd (reserve_upload_commit srv fs token resource_type localization_type
             localization_id image_path w)) =
           log w @ [post_request (BASE_URL @ ''/'' @ resource_type) (api_headers token)
                      (reservation_data resource_type localization_type localization_id
                         (int (length d)) (basename image_path))] @ more"
  unfolding reserve_upload_commit_def Let_def
  apply (simp add: getsize_def assms del: append.simps)
  apply (rule bnd_log_after)
   apply (rule upload_api_post_log)
  apply (auto simp only:)
  done

text \<open>
  Claim C10.  \<^verbatim>\<open>create_and_upload_image\<close> ignores what the deletion of the old image
  returns: whether \<^verbatim>\<open>delete_existing_image\<close> returned \<^verbatim>\<open>True\<close> or \<^verbatim>\<open>False\<close>, the
  run continues from the state the deletion left with the reservation, upload and commit
  steps, and for an image file that exists the next request it issues is the reservation
  POST for the new image.
\<close>

theorem deletion_result_is_ignored:
  assumes "delete_existing_image srv token resource_type localization_type localization_id w
             = (Inr deleted, w1)"
  shows "create_and_upload_image srv fs token resource_type localization_type localization_id
           image_path w =
         reserve_upload_commit srv fs token resource_type localization_type localization_id
           image_path w1
       \<and> (\<forall>d. files fs image_path = Some d \<longrightarrow>
            (\<exists>more. log (snd (create_and_upload_image srv fs token resource_type
                         localization_type localization_id image_path w)) =
               log w1 @ [post_request (BASE_URL @ ''/'' @ resource_type) (api_headers token)
                      (reservation_data resource_type localization_type localization_id
                         (int (length d)) (basename image_path))] @ more))"
proof -
  have e: "create_and_upload_image srv fs token resource_type localization_type localization_id
           image_path w =
         reserve_upload_commit srv fs token resource_type localization_type localization_id
           image_path w1"
    using assms by (simp add: create_and_upload_image_def bnd_def)
  show ?thesis
    unfolding e using reserve_upload_commit_starts_with_reservation by blast
qed


theorem deletion_result_is_ignored_witness:
  "fst (delete_existing_image stubborn_server ''tok'' ''gameCenterAchievementImages''
          ''gameCenterAchievementLocalization'' (JStr ''L1'') world0) = Inr False
   \<and> fst (create_and_upload_image stubborn_server demo_fs ''tok'' ''gameCenterAchievementImages''
          ''gameCenterAchievementLocalization'' (JStr ''L1'') ''/img/level_1_complete.png''
          world0) = Inr True
   \<and> map rq_method (log (snd (create_and_upload_image stubborn_server demo_fs ''tok''
          ''gameCenterAchievementImages'' ''gameCenterAchievementLocalization'' (JStr ''L1'')
          ''/img/level_1_complete.png'' world0))) =
       [''GET'', ''DELETE'', ''POST'', ''PUT'', ''PUT'', ''PATCH'']
   \<and> create_and_upload_image stubborn_server demo_fs ''tok'' ''gameCenterAchievementImages''
          ''gameCenterAchievementLocalization'' (JStr ''L1'') ''/img/level_1_complete.png''
          world0 =
       reserve_upload_commit stubborn_server demo_fs ''tok'' ''gameCenterAchievementImages''
          ''gameCenterAchievementLocalization'' (JStr ''L1'') ''/img/level_1_complete.png''
          (snd (delete_existing_image stubborn_server ''tok'' ''gameCenterAchievementImages''
             ''gameCenterAchievementLocalization'' (JStr ''L1'') world0))"
proof -
  have a: "fst (delete_existing_image stubborn_server ''tok'' ''gameCenterAchievementImages''
          ''gameCenterAchievementLocalization'' (JStr ''L1'') world0) = Inr False"
    by code_simp
  have b: "fst (create_and_upload_image stubborn_server demo_fs ''tok'' ''gameCenterAchievementImages''
          ''gameCenterAchievementLocalization'' (JStr ''L1'') ''/img/level_1_complete.png''
          world0) = Inr True"
    by code_simp
  have c: "map rq_method (log (snd (create_and_upload_image stubborn_server demo_fs ''tok''
          ''gameCenterAchievementImages'' ''gameCenterAchievementLocalization'' (JStr ''L1'')
          ''/img/level_1_complete.png'' world0))) =
       [''GET'', ''DELETE'', ''POST'', ''PUT'', ''PUT'', ''PATCH'']"
    by code_simp
  have d: "delete_existing_image stubborn_server ''tok'' ''gameCenterAchievementImages''
          ''gameCenterAchievementLocalization'' (JStr ''L1'') world0 =
     (Inr False, snd (delete_existing_image stubborn_server ''tok'' ''gameCenterAchievementImages''
             ''gameCenterAchievementLocalization'' (JStr ''L1'') world0))"
    using a by (simp add: prod_eq_iff)
  from deletion_result_is_ignored [OF d, of demo_fs "''/img/level_1_complete.png''"] a b c
  show ?thesis by blast
qed

lemma thn_Inr_iff: "thn r f = Inr v \<longleftrightarrow> (\<exists>x. r = Inr x \<and> f x = Inr v)"
  by (cases r) simp_all

lemma py_slice_in_range:
  assumes "0 \<le> i" and "0 \<le> n" and "i + n \<le> int (length xs)"
  shows "py_slice xs i (i + n) = take (nat n) (drop (nat i) xs)"
proof -
  have a: "slice_index (int (length xs)) i = nat i"
    using assms by (simp add: slice_index_def)
  have b: "slice_index (int (length xs)) (i + n) = nat (i + n)"
    using assms by (simp add: slice_index_def)
  have "nat (i + n) - nat i = nat n" using assms by linarith
  then show ?thesis
    by (simp add: py_slice_def Let_def a b)
qed

lemma covers_le: "covers pos rs S \<Longrightarrow> pos \<le> S"
  by (induction rs arbitrary: pos) fastforce+

lemma covers_concat:
  assumes "covers pos rs S" and "0 \<le> pos" and "S \<le> int (length f)"
  shows "concat (map (chunk f) rs) = take (nat (S - pos)) (drop (nat pos) f)"
  using assms
proof (induction rs arbitrary: pos)
  case Nil
  then show ?case by simp
next
  case (Cons r rs)
  then have o: "fst r = pos" and l: "0 < snd r" and c: "covers (pos + snd r) rs S"
    by simp_all
  from covers_le [OF c] have le: "pos + snd r \<le> S" .
  have ch: "chunk f r = take (nat (snd r)) (drop (nat pos) f)"
    unfolding chunk_def o
    using py_slice_in_range [of pos "snd r" f] Cons.prems(2,3) l le by simp
  have ih: "concat (map (chunk f) rs) = take (nat (S - (pos + snd r))) (drop (nat (pos + snd r)) f)"
    using Cons.IH [OF c] Cons.prems(2,3) l by simp
  have d: "drop (nat (pos + snd r)) f = drop (nat (snd r)) (drop (nat pos) f)"
    using Cons.prems(2) l by (simp add: nat_add_distrib add.commute)
  have n: "nat (S - pos) = nat (snd r) + nat (S - (pos + snd r))"
    using le l by simp
  show ?case
    by (simp add: ch ih d n take_add)
qed

lemma partitions_concat:
  assumes "partitions ranges (int (length f))"
  shows "concat (map (chunk f) (sort_key fst ranges)) = f"
  using covers_concat [of 0 "sort_key fst ranges" "int (length f)" f] assms
  by (simp add: partitions_def)

lemma op_request_body:
  assumes "op_request file_data op = Inr rq" and "op_range op = Inr r"
  shows "rq_body rq = DataBody (chunk file_data r)"
  using assms
  by (auto simp: op_request_def op_chunk_def thn_Inr_iff)

lemma op_requests_bodies:
  assumes "map (op_request file_data) ops = map Inr rqs" and "map op_range ops = map Inr ranges"
  shows "map rq_body rqs = map (\<lambda>r. DataBody (chunk file_data r)) ranges"
  using assms
proof (induction ops arbitrary: rqs ranges)
  case Nil
  then show ?case by simp
next
  case (Cons op ops)
  then obtain rq rqs' r ranges' where "rqs = rq # rqs'" "ranges = r # ranges'"
    "op_request file_data op = Inr rq" "op_range op = Inr r"
    "map (op_request file_data) ops = map Inr rqs'" "map op_range ops = map Inr ranges'"
    by (cases rqs; cases ranges) auto
  with Cons.IH [of rqs' ranges'] op_request_body show ?case by simp
qed

lemma upload_ops_loop_accepted:
  assumes "map (op_request file_data) ops = map Inr rqs" and "accepts srv (log w) rqs"
  shows "upload_ops_loop srv file_data ops w = (Inr True, w\<lparr>log := log w @ rqs\<rparr>)"
  using assms
proof (induction ops arbitrary: rqs w)
  case Nil
  then show ?case by (simp add: ret_apply)
next
  case (Cons op ops)
  then obtain rq rqs' where r: "rqs = rq # rqs'" "op_request file_data op = Inr rq"
    "map (op_request file_data) ops = map Inr rqs'"
    by (cases rqs) auto
  with Cons.prems(2) obtain resp where s: "srv (log w) rq = Inr resp"
    "status_code resp \<in> {200, 201, 204}"
    and a: "accepts srv (log (w\<lparr>log := log w @ [rq]\<rparr>)) rqs'"
    by (auto split: sum.splits)
  from Cons.IH [OF r(3) a] r s show ?case
    by auto
qed

text \<open>
  Claim C2, as stated, fails: the ranges of a reservation may partition the file and yet
  not every range is sent.  When the server rejects the first chunk,
  \<^verbatim>\<open>upload_image_data\<close> returns \<^verbatim>\<open>False\<close> at once, and the only chunk sent is not the
  whole file.
\<close>

theorem rejected_chunk_stops_upload:
  "map op_range demo_ops = [Inr (4, 3), Inr (0, 4)]
   \<and> partitions [(4, 3), (0, 4)] (int (length ''PNGDATA''))
   \<and> files demo_fs ''/img/level_1_complete.png'' = Some ''PNGDATA''
   \<and> fst (upload_image_data (const_server rejecting) demo_fs (JArr demo_ops)
             ''/img/level_1_complete.png'' world0) = Inr False
   \<and> map rq_body (log (snd (upload_image_data (const_server rejecting) demo_fs (JArr demo_ops)
             ''/img/level_1_complete.png'' world0))) = [DataBody ''ATA'']"
  by code_simp

text \<open>
  Claim C2, amended.  For a file of size \<open>S\<close> and a reservation whose operations declare
  byte ranges that partition \<open>[0, S)\<close>, provided every chunk request is answered with
  status 200, 201 or 204, \<^verbatim>\<open>upload_image_data\<close> returns \<^verbatim>\<open>True\<close> after sending one request
  per operation, in the order of the reservation, each carrying exactly the bytes
  \<^verbatim>\<open>file[offset:offset+length]\<close> of its range; and these chunks, ordered by offset,
  concatenate to the contents of the file.
\<close>

theorem upload_sends_declared_ranges:
  assumes "files fs file_path = Some file_data"
    and "map (op_request file_data) ops = map Inr rqs"
    and "map op_range ops = map Inr ranges"
    and "partitions ranges (int (length file_data))"
    and "accepts srv (log w) rqs"
  shows "upload_image_data srv fs (JArr ops) file_path w = (Inr True, w\<lparr>log := log w @ rqs\<rparr>)
       \<and> map rq_body rqs = map (\<lambda>r. DataBody (chunk file_data r)) ranges
       \<and> concat (map (chunk file_data) (sort_key fst ranges)) = file_data"
proof -
  have "upload_image_data srv fs (JArr ops) file_path w = upload_ops_loop srv file_data ops w"
    using assms(1) by (simp add: upload_image_data_def open_read_def)
  with upload_ops_loop_accepted [OF assms(2,5)] op_requests_bodies [OF assms(2,3)]
    partitions_concat [OF assms(4)]
  show ?thesis by simp
qed

theorem upload_sends_declared_ranges_witness:
  "upload_image_data stubborn_server demo_fs (JArr demo_ops) ''/img/level_1_complete.png'' world0 =
     (Inr True,
      \<lparr>log = [\<lparr>rq_method = ''PUT'', rq_url = ''https://store/part2'',
                 rq_headers = [(''Content-Type'', ''image/png'')], rq_params = None,
                 rq_body = DataBody ''ATA''\<rparr>,
               \<lparr>rq_method = ''PUT'', rq_url = ''https://store/part1'',
                 rq_headers = [(''Content-Type'', ''image/png'')], rq_params = None,
                 rq_body = DataBody ''PNGD''\<rparr>],
       out = []\<rparr>)
   \<and> concat (map (chunk ''PNGDATA'') (sort_key fst [(4, 3), (0, 4)])) = ''PNGDATA''"
proof -
  let ?rqs = "[\<lparr>rq_method = ''PUT'', rq_url = ''https://store/part2'',
                 rq_headers = [(''Content-Type'', ''image/png'')], rq_params = None,
                 rq_body = DataBody ''ATA''\<rparr>,
               \<lparr>rq_method = ''PUT'', rq_url = ''https://store/part1'',
                 rq_headers = [(''Content-Type'', ''image/png'')], rq_params = None,
                 rq_body = DataBody ''PNGD''\<rparr>]"
  have f: "files demo_fs ''/img/level_1_complete.png'' = Some ''PNGDATA''"
    by (simp add: demo_fs_def)
  have r: "map (op_request ''PNGDATA'') demo_ops = map Inr ?rqs"
    by code_simp
  have g: "map op_range demo_ops = map Inr [(4, 3), (0, 4)]"
    by code_simp
  have p: "partitions [(4, 3), (0, 4)] (int (length ''PNGDATA''))"
    by code_simp
  have a: "accepts stubborn_server (log world0) ?rqs"
    by code_simp
  from upload_sends_declared_ranges [OF f r g p a] show ?thesis
    by (simp add: world0_def)
qed

section \<open>Properties of the bulk creation\<close>

lemma setup_api_post_log:
  "log (snd (setup_api_post srv token path data w)) =
     log w @ [post_request (BASE_URL @ path) (api_headers token) data]"
  by (cases "srv (log w) (post_request (BASE_URL @ path) (api_headers token) data)")
     (simp_all add: setup_api_post_def requests_post_def lift_apply ret_apply)

lemma setup_api_post_log':
  "setup_api_post srv token path data w = (r, w1) \<Longrightarrow>
     log w1 = log w @ [post_request (BASE_URL @ path) (api_headers token) data]"
  using setup_api_post_log [of srv token path data w] by simp

lemma leaderboard_iteration_failed:
  assumes "srv (log w) (post_request (BASE_URL @ ''/gameCenterLeaderboards'') (api_headers token)
             (leaderboard_data gc_detail_id lb)) = Inr resp"
    and "status_code resp \<notin> {200, 201}"
  shows "leaderboard_iteration srv token gc_detail_id lb w =
     (Inr (),
      w\<lparr>log := log w @ [post_request (BASE_URL @ ''/gameCenterLeaderboards'') (api_headers token)
             (leaderboard_data gc_detail_id lb)],
        out := out w @ ''  Creating: '' @ lb_referenceName lb @ ''... ''
               @ diagnostic ''  ERROR '' 500 resp @ newline @ ''FAILED'' @ newline\<rparr>)"
  using assms
  by (simp add: leaderboard_iteration_def create_leaderboard_def setup_api_post_def
      requests_post_def)

lemma achievement_iteration_failed:
  assumes "srv (log w) (post_request (BASE_URL @ ''/gameCenterAchievements'') (api_headers token)
             (achievement_data gc_detail_id ach)) = Inr resp"
    and "status_code resp \<notin> {200, 201}"
  shows "achievement_iteration srv token gc_detail_id ach w =
     (Inr (),
      w\<lparr>log := log w @ [post_request (BASE_URL @ ''/gameCenterAchievements'') (api_headers token)
             (achievement_data gc_detail_id ach)],
        out := out w @ ''  Creating: '' @ ach_referenceName ach @ ''... ''
               @ diagnostic ''  ERROR '' 500 resp @ newline @ ''FAILED'' @ newline\<rparr>)"
  using assms
  by (simp add: achievement_iteration_def create_achievement_def setup_api_post_def
      requests_post_def Let_def)

lemma leaderboard_iteration_posts:
  assumes "leaderboard_iteration srv token gc_detail_id lb w = (Inr (), w1)"
  shows "\<exists>new. log w1 = log w @ new \<and>
           posts_to ''/gameCenterLeaderboards'' new =
             [post_request (BASE_URL @ ''/gameCenterLeaderboards'') (api_headers token)
                (leaderboard_data gc_detail_id lb)]"
proof -
  let ?w0 = "w\<lparr>out := out w @ ''  Creating: '' @ lb_referenceName lb @ ''...'' @ '' ''\<rparr>"
  from assms obtain result w2 where
    c: "setup_api_post srv token ''/gameCenterLeaderboards'' (leaderboard_data gc_detail_id lb) ?w0
          = (Inr result, w2)"
    and r: "(if truthy result then
         bnd (lift (thn (py_getitem result ''data'') (\<lambda>d. py_getitem d ''id''))) (\<lambda>lb_id.
         bnd (print (''OK (id: '' @ py_str lb_id @ '')'')) (\<lambda>_.
         bnd (create_leaderboard_localization srv token lb_id (lb_referenceName lb) '' pts'')
           (\<lambda>_. ret ())))
       else print ''FAILED'') w2 = (Inr (), w1)"
    by (auto simp: leaderboard_iteration_def create_leaderboard_def bnd_Inr_iff
        simp del: bnd_print bnd_simps)
  from setup_api_post_log' [OF c] have l2: "log w2 = log w @
      [post_request (BASE_URL @ ''/gameCenterLeaderboards'') (api_headers token)
                (leaderboard_data gc_detail_id lb)]" by simp
  show ?thesis
  proof (cases "truthy result")
    case False
    with r have "log w1 = log w2" by auto
    with l2 show ?thesis by (simp add: posts_to_def post_request_def)
  next
    case True
    with r obtain lb_id x w3 where
      "create_leaderboard_localization srv token lb_id (lb_referenceName lb) '' pts''
         (w2\<lparr>out := out w2 @ ''OK (id: '' @ py_str lb_id @ '')'' @ newline\<rparr>) = (Inr x, w3)"
      and "w1 = w3"
      by (auto simp: bnd_Inr_iff lift_apply ret_apply simp del: bnd_print bnd_simps)
    then have "\<exists>d. log w1 = log w2 @
        [post_request (BASE_URL @ ''/gameCenterLeaderboardLocalizations'') (api_headers token) d]"
      using setup_api_post_log' [of srv token "''/gameCenterLeaderboardLocalizations''"]
      by (auto simp: create_leaderboard_localization_def Let_def)
    with l2 show ?thesis by (auto simp: posts_to_def post_request_def)
  qed
qed


lemma achievement_iteration_posts:
  assumes "achievement_iteration srv token gc_detail_id ach w = (Inr (), w1)"
  shows "\<exists>new. log w1 = log w @ new \<and>
           posts_to ''/gameCenterAchievements'' new =
             [post_request (BASE_URL @ ''/gameCenterAchievements'') (api_headers token)
                (achievement_data gc_detail_id ach)]"
proof -
  let ?w0 = "w\<lparr>out := out w @ ''  Creating: '' @ ach_referenceName ach @ ''...'' @ '' ''\<rparr>"
  from assms obtain result w2 where
    c: "setup_api_post srv token ''/gameCenterAchievements'' (achievement_data gc_detail_id ach) ?w0
          = (Inr result, w2)"
    and r: "(if truthy result then
          bnd (lift (thn (py_getitem result ''data'') (\<lambda>d. py_getitem d ''id''))) (\<lambda>ach_id.
          bnd (print (''OK (id: '' @ py_str ach_id @ '')'')) (\<lambda>_.
          bnd (lift (case map_of ACHIEVEMENT_LOCALIZATIONS (ach_vendorIdentifier ach) of
                       None \<Rightarrow> Inl (KeyError (ach_vendorIdentifier ach)) | Some loc \<Rightarrow> Inr loc)) (\<lambda>loc.
          bnd (create_achievement_localization srv token ach_id loc) (\<lambda>_. ret ()))))
        else print ''FAILED'') w2 = (Inr (), w1)"
    by (auto simp: achievement_iteration_def create_achievement_def bnd_Inr_iff Let_def
        simp del: bnd_print bnd_simps)
  from setup_api_post_log' [OF c] have l2: "log w2 = log w @
      [post_request (BASE_URL @ ''/gameCenterAchievements'') (api_headers token)
                (achievement_data gc_detail_id ach)]" by simp
  show ?thesis
  proof (cases "truthy result")
    case False
    with r have "log w1 = log w2" by auto
    with l2 show ?thesis by (simp add: posts_to_def post_request_def)
  next
    case True
    with r obtain ach_id loc x w3 where
      "create_achievement_localization srv token ach_id loc
         (w2\<lparr>out := out w2 @ ''OK (id: '' @ py_str ach_id @ '')'' @ newline\<rparr>) = (Inr x, w3)"
      and "w1 = w3"
      by (auto simp: bnd_Inr_iff lift_apply ret_apply simp del: bnd_print bnd_simps)
    then have "\<exists>d. log w1 = log w2 @
        [post_request (BASE_URL @ ''/gameCenterAchievementLocalizations'') (api_headers token) d]"
      using setup_api_post_log' [of srv token "''/gameCenterAchievementLocalizations''"]
      by (auto simp: create_achievement_localization_def)
    with l2 show ?thesis by (auto simp: posts_to_def post_request_def)
  qed
qed

lemma posts_to_append [simp]: "posts_to path (xs @ ys) = posts_to path xs @ posts_to path ys"
  by (simp add: posts_to_def)

lemma leaderboards_loop_posts:
  assumes "leaderboards_loop srv token gc_detail_id lbs w = (Inr (), w')"
  shows "\<exists>new. log w' = log w @ new \<and>
           posts_to ''/gameCenterLeaderboards'' new =
             map (\<lambda>lb. post_request (BASE_URL @ ''/gameCenterLeaderboards'') (api_headers token)
                          (leaderboard_data gc_detail_id lb)) lbs"
  using assms
proof (induction lbs arbitrary: w)
  case Nil
  then show ?case by (simp add: ret_apply posts_to_def)
next
  case (Cons lb lbs)
  from Cons.prems obtain w1 where
    i: "leaderboard_iteration srv token gc_detail_id lb w = (Inr (), w1)"
    and l: "leaderboards_loop srv token gc_detail_id lbs w1 = (Inr (), w')"
    by (auto simp: bnd_Inr_iff)
  from leaderboard_iteration_posts [OF i] obtain n1 where
    n1: "log w1 = log w @ n1" "posts_to ''/gameCenterLeaderboards'' n1 =
             [post_request (BASE_URL @ ''/gameCenterLeaderboards'') (api_headers token)
                (leaderboard_data gc_detail_id lb)]" by blast
  from Cons.IH [OF l] obtain n2 where
    n2: "log w' = log w1 @ n2" "posts_to ''/gameCenterLeaderboards'' n2 =
             map (\<lambda>lb. post_request (BASE_URL @ ''/gameCenterLeaderboards'') (api_headers token)
                          (leaderboard_data gc_detail_id lb)) lbs" by blast
  have "log w' = log w @ (n1 @ n2)" using n1 n2 by simp
  moreover have "posts_to ''/gameCenterLeaderboards'' (n1 @ n2) =
             map (\<lambda>lb. post_request (BASE_URL @ ''/gameCenterLeaderboards'') (api_headers token)
                          (leaderboard_data gc_detail_id lb)) (lb # lbs)"
    using n1 n2 by simp
  ultimately show ?case by blast
qed

lemma achievements_loop_posts:
  assumes "achievements_loop srv token gc_detail_id achs w = (Inr (), w')"
  shows "\<exists>new. log w' = log w @ new \<and>
           posts_to ''/gameCenterAchievements'' new =
             map (\<lambda>ach. post_request (BASE_URL @ ''/gameCenterAchievements'') (api_headers token)
                          (achievement_data gc_detail_id ach)) achs"
  using assms
proof (induction achs arbitrary: w)
  case Nil
  then show ?case by (simp add: ret_apply posts_to_def)
next
  case (Cons ach achs)
  from Cons.prems obtain w1 where
    i: "achievement_iteration srv token gc_detail_id ach w = (Inr (), w1)"
    and l: "achievements_loop srv token gc_detail_id achs w1 = (Inr (), w')"
    by (auto simp: bnd_Inr_iff)
  from achievement_iteration_posts [OF i] obtain n1 where
    n1: "log w1 = log w @ n1" "posts_to ''/gameCenterAchievements'' n1 =
             [post_request (BASE_URL @ ''/gameCenterAchievements'') (api_headers token)
                (achievement_data gc_detail_id ach)]" by blast
  from Cons.IH [OF l] obtain n2 where
    n2: "log w' = log w1 @ n2" "posts_to ''/gameCenterAchievements'' n2 =
             map (\<lambda>ach. post_request (BASE_URL @ ''/gameCenterAchievements'') (api_headers token)
                          (achievement_data gc_detail_id ach)) achs" by blast
  have "log w' = log w @ (n1 @ n2)" using n1 n2 by simp
  moreover have "posts_to ''/gameCenterAchievements'' (n1 @ n2) =
             map (\<lambda>ach. post_request (BASE_URL @ ''/gameCenterAchievements'') (api_headers token)
                          (achievement_data gc_detail_id ach)) (ach # achs)"
    using n1 n2 by simp
  ultimately show ?case by blast
qed

text \<open>
  Claim C6.  In both batch loops a create that fails (the POST is answered with a status
  other than 200 and 201, so that \<^verbatim>\<open>api_post\<close> returns \<^verbatim>\<open>None\<close>) prints \<^verbatim>\<open>FAILED\<close> and
  the loop goes on with the remaining items: the run of the batch from a failing item is
  the run of the rest of the batch from the state the failure left.  Hence whenever
  \<^verbatim>\<open>create_all_leaderboards\<close> or \<^verbatim>\<open>create_all_achievements\<close> returns, it has posted a
  create request for every configured item, in order, however many of them failed.
\<close>

theorem failed_create_does_not_stop_batch:
  "(\<forall>resp. srv (log w) (post_request (BASE_URL @ ''/gameCenterLeaderboards'') (api_headers token)
               (leaderboard_data gc_detail_id lb)) = Inr resp \<and> status_code resp \<notin> {200, 201} \<longrightarrow>
      leaderboards_loop srv token gc_detail_id (lb # lbs) w =
      leaderboards_loop srv token gc_detail_id lbs
        (w\<lparr>log := log w @ [post_request (BASE_URL @ ''/gameCenterLeaderboards'') (api_headers token)
               (leaderboard_data gc_detail_id lb)],
          out := out w @ ''  Creating: '' @ lb_referenceName lb @ ''... ''
                 @ diagnostic ''  ERROR '' 500 resp @ newline @ ''FAILED'' @ newline\<rparr>))
   \<and> (\<forall>resp. srv (log w) (post_request (BASE_URL @ ''/gameCenterAchievements'') (api_headers token)
               (achievement_data gc_detail_id ach)) = Inr resp \<and> status_code resp \<notin> {200, 201} \<longrightarrow>
      achievements_loop srv token gc_detail_id (ach # achs) w =
      achievements_loop srv token gc_detail_id achs
        (w\<lparr>log := log w @ [post_request (BASE_URL @ ''/gameCenterAchievements'') (api_headers token)
               (achievement_data gc_detail_id ach)],
          out := out w @ ''  Creating: '' @ ach_referenceName ach @ ''... ''
                 @ diagnostic ''  ERROR '' 500 resp @ newline @ ''FAILED'' @ newline\<rparr>))
   \<and> (\<forall>w'. create_all_leaderboards srv token gc_detail_id w = (Inr (), w') \<longrightarrow>
        (\<exists>new. log w' = log w @ new \<and>
           posts_to ''/gameCenterLeaderboards'' new =
             map (\<lambda>lb. post_request (BASE_URL @ ''/gameCenterLeaderboards'') (api_headers token)
                          (leaderboard_data gc_detail_id lb)) SCORE_LEADERBOARDS))
   \<and> (\<forall>w'. create_all_achievements srv token gc_detail_id w = (Inr (), w') \<longrightarrow>
        (\<exists>new. log w' = log w @ new \<and>
           posts_to ''/gameCenterAchievements'' new =
             map (\<lambda>ach. post_request (BASE_URL @ ''/gameCenterAchievements'') (api_headers token)
                          (achievement_data gc_detail_id ach)) ACHIEVEMENTS))"
proof (intro conjI allI impI)
  fix resp
  assume "srv (log w) (post_request (BASE_URL @ ''/gameCenterLeaderboards'') (api_headers token)
               (leaderboard_data gc_detail_id lb)) = Inr resp \<and> status_code resp \<notin> {200, 201}"
  then show "leaderboards_loop srv token gc_detail_id (lb # lbs) w =
      leaderboards_loop srv token gc_detail_id lbs
        (w\<lparr>log := log w @ [post_request (BASE_URL @ ''/gameCenterLeaderboards'') (api_headers token)
               (leaderboard_data gc_detail_id lb)],
          out := out w @ ''  Creating: '' @ lb_referenceName lb @ ''... ''
                 @ diagnostic ''  ERROR '' 500 resp @ newline @ ''FAILED'' @ newline\<rparr>)"
    using leaderboard_iteration_failed [where srv=srv and w=w and resp=resp]
    by (simp add: bnd_def)
next
  fix resp
  assume "srv (log w) (post_request (BASE_URL @ ''/gameCenterAchievements'') (api_headers token)
               (achievement_data gc_detail_id ach)) = Inr resp \<and> status_code resp \<notin> {200, 201}"
  then show "achievements_loop srv token gc_detail_id (ach # achs) w =
      achievements_loop srv token gc_detail_id achs
        (w\<lparr>log := log w @ [post_request (BASE_URL @ ''/gameCenterAchievements'') (api_headers token)
               (achievement_data gc_detail_id ach)],
          out := out w @ ''  Creating: '' @ ach_referenceName ach @ ''... ''
                 @ diagnostic ''  ERROR '' 500 resp @ newline @ ''FAILED'' @ newline\<rparr>)"
    using achievement_iteration_failed [where srv=srv and w=w and resp=resp]
    by (simp add: bnd_def)
next
  fix w'
  assume "create_all_leaderboards srv token gc_detail_id w = (Inr (), w')"
  then show "\<exists>new. log w' = log w @ new \<and>
           posts_to ''/gameCenterLeaderboards'' new =
             map (\<lambda>lb. post_request (BASE_URL @ ''/gameCenterLeaderboards'') (api_headers token)
                          (leaderboard_data gc_detail_id lb)) SCORE_LEADERBOARDS"
    by (auto simp: create_all_leaderboards_def dest!: leaderboards_loop_posts)
next
  fix w'
  assume "create_all_achievements srv token gc_detail_id w = (Inr (), w')"
  then show "\<exists>new. log w' = log w @ new \<and>
           posts_to ''/gameCenterAchievements'' new =
             map (\<lambda>ach. post_request (BASE_URL @ ''/gameCenterAchievements'') (api_headers token)
                          (achievement_data gc_detail_id ach)) ACHIEVEMENTS"
    by (auto simp: create_all_achievements_def dest!: achievements_loop_posts)
qed



lemma leaderboards_loop_all_rejected:
  "fst (leaderboards_loop (const_server rejecting) token gc_detail_id lbs w) = Inr ()"
proof (induction lbs arbitrary: w)
  case Nil
  show ?case by (simp add: ret_apply)
next
  case (Cons lb lbs)
  have "leaderboard_iteration (const_server rejecting) token gc_detail_id lb w =
     (Inr (),
      w\<lparr>log := log w @ [post_request (BASE_URL @ ''/gameCenterLeaderboards'') (api_headers token)
             (leaderboard_data gc_detail_id lb)],
        out := out w @ ''  Creating: '' @ lb_referenceName lb @ ''... ''
               @ diagnostic ''  ERROR '' 500 rejecting @ newline @ ''FAILED'' @ newline\<rparr>)"
    by (rule leaderboard_iteration_failed) (simp_all add: const_server_def rejecting_def)
  then show ?case by (simp add: bnd_def Cons.IH)
qed

lemma achievements_loop_all_rejected:
  "fst (achievements_loop (const_server rejecting) token gc_detail_id achs w) = Inr ()"
proof (induction achs arbitrary: w)
  case Nil
  show ?case by (simp add: ret_apply)
next
  case (Cons ach achs)
  have "achievement_iteration (const_server rejecting) token gc_detail_id ach w =
     (Inr (),
      w\<lparr>log := log w @ [post_request (BASE_URL @ ''/gameCenterAchievements'') (api_headers token)
             (achievement_data gc_detail_id ach)],
        out := out w @ ''  Creating: '' @ ach_referenceName ach @ ''... ''
               @ diagnostic ''  ERROR '' 500 rejecting @ newline @ ''FAILED'' @ newline\<rparr>)"
    by (rule achievement_iteration_failed) (simp_all add: const_server_def rejecting_def)
  then show ?case by (simp add: bnd_def Cons.IH)
qed

theorem failed_create_does_not_stop_batch_witness:
  "leaderboards_loop (const_server rejecting) ''tok'' (JStr ''gc'')
       (hd SCORE_LEADERBOARDS # tl SCORE_LEADERBOARDS) world0 =
     leaderboards_loop (const_server rejecting) ''tok'' (JStr ''gc'') (tl SCORE_LEADERBOARDS)
       (world0\<lparr>log := log world0 @ [post_request (BASE_URL @ ''/gameCenterLeaderboards'') (api_headers ''tok'')
               (leaderboard_data (JStr ''gc'') (hd SCORE_LEADERBOARDS))],
          out := out world0 @ ''  Creating: '' @ lb_referenceName (hd SCORE_LEADERBOARDS) @ ''... ''
                 @ diagnostic ''  ERROR '' 500 rejecting @ newline @ ''FAILED'' @ newline\<rparr>)
   \<and> achievements_loop (const_server rejecting) ''tok'' (JStr ''gc'')
       (hd ACHIEVEMENTS # tl ACHIEVEMENTS) world0 =
     achievements_loop (const_server rejecting) ''tok'' (JStr ''gc'') (tl ACHIEVEMENTS)
       (world0\<lparr>log := log world0 @ [post_request (BASE_URL @ ''/gameCenterAchievements'') (api_headers ''tok'')
               (achievement_data (JStr ''gc'') (hd ACHIEVEMENTS))],
          out := out world0 @ ''  Creating: '' @ ach_referenceName (hd ACHIEVEMENTS) @ ''... ''
                 @ diagnostic ''  ERROR '' 500 rejecting @ newline @ ''FAILED'' @ newline\<rparr>)
   \<and> fst (create_all_leaderboards (const_server rejecting) ''tok'' (JStr ''gc'') world0) = Inr ()
   \<and> length (posts_to ''/gameCenterLeaderboards''
        (log (snd (create_all_leaderboards (const_server rejecting) ''tok'' (JStr ''gc'') world0)))) = 60
   \<and> fst (create_all_achievements (const_server rejecting) ''tok'' (JStr ''gc'') world0) = Inr ()
   \<and> length (posts_to ''/gameCenterAchievements''
        (log (snd (create_all_achievements (const_server rejecting) ''tok'' (JStr ''gc'') world0)))) = 61"
proof -
  note t = failed_create_does_not_stop_batch [of "const_server rejecting" world0 "''tok''" "JStr ''gc''"
      "hd SCORE_LEADERBOARDS" "tl SCORE_LEADERBOARDS" "hd ACHIEVEMENTS" "tl ACHIEVEMENTS"]
  have r: "const_server rejecting (log world0) rq = Inr rejecting \<and> status_code rejecting \<notin> {200, 201}" for rq
    by (simp add: const_server_def rejecting_def)
  have l: "fst (create_all_leaderboards (const_server rejecting) ''tok'' (JStr ''gc'') world0) = Inr ()"
    by (simp add: create_all_leaderboards_def leaderboards_loop_all_rejected)
  have a: "fst (create_all_achievements (const_server rejecting) ''tok'' (JStr ''gc'') world0) = Inr ()"
    by (simp add: create_all_achievements_def achievements_loop_all_rejected)
  have l': "create_all_leaderboards (const_server rejecting) ''tok'' (JStr ''gc'') world0 =
      (Inr (), snd (create_all_leaderboards (const_server rejecting) ''tok'' (JStr ''gc'') world0))"
    using l by (simp add: prod_eq_iff)
  have a': "create_all_achievements (const_server rejecting) ''tok'' (JStr ''gc'') world0 =
      (Inr (), snd (create_all_achievements (const_server rejecting) ''tok'' (JStr ''gc'') world0))"
    using a by (simp add: prod_eq_iff)
  have n: "length SCORE_LEADERBOARDS = 60" "length ACHIEVEMENTS = 61"
    by (simp_all add: SCORE_LEADERBOARDS_def ACHIEVEMENTS_def NUM_LEVELS_def)
  from t l' obtain new where
    "log (snd (create_all_leaderboards (const_server rejecting) ''tok'' (JStr ''gc'') world0)) = log world0 @ new"
    "posts_to ''/gameCenterLeaderboards'' new =
       map (\<lambda>lb. post_request (BASE_URL @ ''/gameCenterLeaderboards'') (api_headers ''tok'')
                          (leaderboard_data (JStr ''gc'') lb)) SCORE_LEADERBOARDS"
    by blast
  then have c1: "length (posts_to ''/gameCenterLeaderboards''
        (log (snd (create_all_leaderboards (const_server rejecting) ''tok'' (JStr ''gc'') world0)))) = 60"
    using n by (simp add: world0_def)
  from t a' obtain new where
    "log (snd (create_all_achievements (const_server rejecting) ''tok'' (JStr ''gc'') world0)) = log world0 @ new"
    "posts_to ''/gameCenterAchievements'' new =
       map (\<lambda>ach. post_request (BASE_URL @ ''/gameCenterAchievements'') (api_headers ''tok'')
                          (achievement_data (JStr ''gc'') ach)) ACHIEVEMENTS"
    by blast
  then have c2: "length (posts_to ''/gameCenterAchievements''
        (log (snd (create_all_achievements (const_server rejecting) ''tok'' (JStr ''gc'') world0)))) = 61"
    using n by (simp add: world0_def)
  from t r l a c1 c2 show ?thesis by blast
qed

section \<open>Properties of the dry runs\<close>

lemma silentD: "silent m \<Longrightarrow> log (snd (m w)) = log w"
  by (simp add: silent_def)

lemma silent_basic [intro!, simp]:
  "silent (ret v)" "silent (raise e)" "silent (lift r)" "silent (print s)" "silent (print_end s t)"
  by (simp_all add: silent_def ret_def raise_def lift_def)

lemma silent_bnd [intro!]:
  assumes "silent m" and "\<And>v. silent (f v)"
  shows "silent (bnd m f)"
  unfolding silent_def
proof
  fix w
  obtain r w1 where m: "m w = (r, w1)" by (cases "m w")
  with silentD [OF assms(1), of w] have l: "log w1 = log w" by simp
  show "log (snd (bnd m f w)) = log w"
    using m l silentD [OF assms(2)] by (cases r) (simp_all add: bnd_def)
qed


lemma silent_if [intro!]: "silent a \<Longrightarrow> silent b \<Longrightarrow> silent (if c then a else b)"
  by simp

lemma silent_list_leaderboards [intro!, simp]: "silent (list_leaderboards lbs)"
  by (induction lbs) (auto simp del: bnd_print bnd_simps)

lemma silent_list_achievements [intro!, simp]: "silent (list_achievements achs)"
  by (induction achs) (auto simp del: bnd_print bnd_simps)

lemma silent_print_summary [intro!, simp]: "silent print_summary"
  unfolding print_summary_def by (intro silent_bnd silent_basic)

lemma silent_list_images_loop [intro!, simp]: "silent (list_images_loop fs dir names)"
  by (induction names) (auto simp del: bnd_print bnd_simps)























section \<open>Properties of the exit status\<close>






















lemma uncaught_lift_apply:
  "uncaught (lift r) w = (case r of Inl e \<Rightarrow> (Inl (Uncaught e), w) | Inr v \<Rightarrow> (Inr v, w))"
  by (cases r) (simp_all add: uncaught_def lift_def)



















end
